theory Spec2Isabelle
  imports Main "HOL-Library.AList" "HOL-Library.Sublist"
begin

section \<open>Conventions\<close>

text \<open>
  A shallow embedding of webmcp-extend (TypeScript). Strings are \<^typ>\<open>string\<close>; a
  character stands for one code unit of an ASCII text. An optional field \<open>f?: T\<close> is a
  field of type \<open>T option\<close>, \<open>undefined\<close> being \<open>None\<close>. A thrown \<open>Error(msg)\<close> is the
  value \<open>Inl (Error msg)\<close> of a sum type. What the browser, the file system and the
  clock answer is an explicit argument (a record named \<open>..._world\<close>) of the operation
  that asks. Record fields keep the names of the TypeScript interfaces; a field called
  \<open>value\<close> in the source is called \<open>val\<close> here.
\<close>

datatype error = Error string

section \<open>Session recorder (src/session/session.ts, src/session/types.ts)\<close>

datatype session_action = Click | Fill | Select | Hover | Scroll | Wait | Navigate



record SessionStepOptions =
  action :: session_action
  selector :: "string option"
  val :: "string option"
  url :: "string option"
  toolName :: "string option"

record ActionLogEntry =
  stepIndex :: nat
  action :: session_action
  selector :: "string option"
  val :: "string option"
  url :: "string option"
  toolName :: "string option"
  pageUrl :: string
  screenshotPath :: string
  timestamp :: nat
  success :: bool
  error :: "string option"




definition truthy :: "string option \<Rightarrow> bool" where
  "truthy s = (case s of None \<Rightarrow> False | Some t \<Rightarrow> t \<noteq> [])"










section \<open>Strings and regular expressions of the source\<close>

text \<open>
  The character classes of the source's regular expressions, on ASCII: \<open>\s\<close> (also what
  \<open>trim\<close> strips), \<open>\w\<close>, and the letter cases used by \<open>toUpperCase\<close>, \<open>toLowerCase\<close>
  and the \<open>i\<close> flag.
\<close>

definition is_space :: "char \<Rightarrow> bool" where
  "is_space c = (of_char c \<in> {9, 10, 11, 12, 13, 32 :: nat})"

definition lower_letters :: string where
  "lower_letters = ''abcdefghijklmnopqrstuvwxyz''"

definition upper_letters :: string where
  "upper_letters = ''ABCDEFGHIJKLMNOPQRSTUVWXYZ''"

definition is_word :: "char \<Rightarrow> bool" where
  "is_word c = (c \<in> set lower_letters \<or> c \<in> set upper_letters
                 \<or> c \<in> set ''0123456789_'')"


definition to_lower :: "char \<Rightarrow> char" where
  "to_lower c = (case map_of (zip upper_letters lower_letters) c of
                   Some l \<Rightarrow> l | None \<Rightarrow> c)"

definition trim :: "string \<Rightarrow> string" where
  "trim s = rev (dropWhile is_space (rev (dropWhile is_space s)))"

text \<open>\<open>lines.join(sep)\<close>.\<close>

fun join :: "string \<Rightarrow> string list \<Rightarrow> string" where
  "join sep [] = []"
| "join sep [x] = x"
| "join sep (x # y # ys) = x @ sep @ join sep (y # ys)"








section \<open>Session tools (groupActionsIntoTools)\<close>

record ToolActionStep =
  action :: session_action
  selector :: string
  inputProperty :: "string option"
  staticValue :: "string option"
  delay :: "nat option"

record SessionProperty =
  type :: string
  description :: string

text \<open>
  \<open>properties\<close> is a JavaScript object used as a dictionary: an association list in
  insertion order, where assigning to a key that is there replaces its value in place.
\<close>

record SessionInputSchema =
  type :: string
  properties :: "(string \<times> SessionProperty) list"
  required :: "string list"

record ToolFromActions =
  name :: string
  steps :: "ToolActionStep list"
  inputSchema :: SessionInputSchema
  urlPatterns :: "string list"

text \<open>\<open>entry.selector ?? ""\<close> and the template text of an optional string.\<close>

definition or_empty :: "string option \<Rightarrow> string" where
  "or_empty s = (case s of None \<Rightarrow> [] | Some t \<Rightarrow> t)"



text \<open>The body of the inner loop, on the tool under construction.\<close>

definition set_add :: "'a \<Rightarrow> 'a list \<Rightarrow> 'a list" where
  "set_add x xs = (if x \<in> set xs then xs else xs @ [x])"





subsection \<open>The derivation as the specification words it\<close>

text \<open>
  A second description of the same result, written from the specification: keep the
  successful, tagged entries; one tool per tag, in the order in which the tags first
  appear; a tool's entries are the kept entries of its tag in log order; \<open>wait\<close> and
  \<open>navigate\<close> entries give no step; every \<open>fill\<close> or \<open>select\<close> entry with a non-empty
  value gives a property named by \<open>inferPropertyName\<close>, of type string and listed in
  \<open>required\<close>.
\<close>

fun first_occurrences :: "'a list \<Rightarrow> 'a list" where
  "first_occurrences [] = []"
| "first_occurrences (x # xs) = x # first_occurrences (filter (\<lambda>y. y \<noteq> x) xs)"













section \<open>Tool code generator (src/generator/generate-tools.ts)\<close>

text \<open>
  A JavaScript number is modelled by what the generator reads of it: its text in a
  template (\<open>`${n}`\<close>) and whether it is truthy (neither 0 nor NaN).
\<close>

record js_num =
  num_text :: string
  num_truthy :: bool

datatype ToolInputProperty =
  ToolInputProperty (type: string) (description: string) (enumv: "string list option")
    (minimum: "js_num option") (maximum: "js_num option")
    (items: "ToolInputProperty option")

text \<open>\<open>properties\<close>: the entries of the object in the order of \<open>Object.entries\<close>.\<close>

record ToolInputSchema =
  type :: string
  properties :: "(string \<times> ToolInputProperty) list"
  required :: "string list option"

record JSCallAction =
  functionPath :: string
  argMapping :: "string list"
  returnType :: "string option"

record DOMActionStep =
  action :: string
  selector :: string
  inputProperty :: "string option"
  staticValue :: "string option"
  delay :: "js_num option"
  readAttribute :: "string option"
  description :: "string option"

record DOMAction =
  steps :: "DOMActionStep list"

datatype action_details = JSCallDetails JSCallAction | DOMDetails DOMAction

record ToolProposalAnnotations =
  readOnlyHint :: "bool option"
  destructiveHint :: "bool option"
  confirmationHint :: "bool option"
  openWorldHint :: "bool option"

record ToolProposal =
  name :: string
  description :: string
  inputSchema :: ToolInputSchema
  actionType :: string
  actionDetails :: action_details
  annotations :: "ToolProposalAnnotations option"
  urlPattern :: "string option"

record GeneratedFile =
  path :: string
  content :: string

text \<open>Decimal text of an index, \<open>true\<close>/\<open>false\<close>, and \<open>JSON.stringify\<close> of a string.\<close>

function show_nat :: "nat \<Rightarrow> string" where
  "show_nat n = (if n < 10 then [''0123456789'' ! n]
                 else show_nat (n div 10) @ [''0123456789'' ! (n mod 10)])"
  by pat_completeness auto
termination
  by (relation "measure id") auto

declare show_nat.simps [simp del]

definition bool_text :: "bool \<Rightarrow> string" where
  "bool_text b = (if b then ''true'' else ''false'')"

definition json_escape :: "char \<Rightarrow> string" where
  "json_escape c =
     (if c = CHR 0x22 then [CHR 0x5C, CHR 0x22]
      else if c = CHR 0x5C then [CHR 0x5C, CHR 0x5C]
      else if c = CHR 0x08 then [CHR 0x5C, CHR ''b'']
      else if c = CHR 0x0C then [CHR 0x5C, CHR ''f'']
      else if c = CHR 0x0A then [CHR 0x5C, CHR ''n'']
      else if c = CHR 0x0D then [CHR 0x5C, CHR ''r'']
      else if c = CHR 0x09 then [CHR 0x5C, CHR ''t'']
      else if (of_char c :: nat) < 32
        then [CHR 0x5C, CHR ''u'', CHR ''0'', CHR ''0'',
              ''0123456789abcdef'' ! (of_char c div 16),
              ''0123456789abcdef'' ! (of_char c mod 16)]
      else [c])"

definition JSON_stringify :: "string \<Rightarrow> string" where
  "JSON_stringify s = [CHR 0x22] @ concat (map json_escape s) @ [CHR 0x22]"

definition nl :: string where
  "nl = [CHR 0x0A]"

subsection \<open>Zod schema\<close>

fun generateZodType :: "ToolInputProperty \<Rightarrow> string" where
  "generateZodType (ToolInputProperty t d en mn mx it) =
     (if t = ''string'' then
        (case en of
           Some es \<Rightarrow> ''z.enum(['' @ join '', '' (map JSON_stringify es) @ ''])''
         | None \<Rightarrow> ''z.string()'')
      else if t = ''number'' then
        ''z.number()''
        @ (case mn of Some m \<Rightarrow> ''.min('' @ num_text m @ '')'' | None \<Rightarrow> [])
        @ (case mx of Some m \<Rightarrow> ''.max('' @ num_text m @ '')'' | None \<Rightarrow> [])
      else if t = ''boolean'' then ''z.boolean()''
      else if t = ''array'' then
        (case it of
           Some i \<Rightarrow> ''z.array('' @ generateZodType i @ '')''
         | None \<Rightarrow> ''z.array(z.unknown())'')
      else if t = ''object'' then ''z.record(z.unknown())''
      else ''z.unknown()'')"

definition zod_property :: "string list \<Rightarrow> string \<times> ToolInputProperty \<Rightarrow> string" where
  "zod_property req np =
     ''  '' @ fst np @ '': '' @ generateZodType (snd np)
     @ (if fst np \<notin> set req then ''.optional()'' else [])
     @ (if ToolInputProperty.description (snd np) \<noteq> []
        then ''.describe('' @ JSON_stringify (ToolInputProperty.description (snd np)) @ '')''
        else [])"

definition generateZodSchema :: "ToolInputSchema \<Rightarrow> string" where
  "generateZodSchema schema =
     (if length (ToolInputSchema.properties schema) = 0 then ''z.object({})''
      else ''z.object({'' @ nl
           @ join ('','' @ nl)
               (map (zod_property
                       (case ToolInputSchema.required schema of None \<Rightarrow> [] | Some r \<Rightarrow> r))
                  (ToolInputSchema.properties schema))
           @ '','' @ nl @ ''})'')"

subsection \<open>The execute body of a js-call tool\<close>

definition generateJSCallBody :: "JSCallAction \<Rightarrow> string" where
  "generateJSCallBody a =
     (let args = join '', '' (map (\<lambda>x. ''input.'' @ x) (argMapping a)) in
      join nl
        ([''    try {'',
          ''      // Call the page's JS function directly'',
          ''      const fn = '' @ functionPath a @ '';'',
          ''      if (typeof fn !== \"function\") {'',
          ''        return textContent(\"Error: '' @ functionPath a
             @ '' is not available on this page\");'',
          ''      }'']
         @ (if returnType a = Some ''void''
            then [''      fn('' @ args @ '');'',
                  ''      return textContent(\"Action completed successfully\");'']
            else [''      const result = fn('' @ args @ '');'',
                  ''      return jsonContent(result);''])
         @ [''    } catch (error) {'',
            ''      return textContent(`Error calling '' @ functionPath a @ '': ${error}`);'',
            ''    }'']))"

subsection \<open>The execute body of a dom-action tool\<close>

definition step_value :: "DOMActionStep \<Rightarrow> string" where
  "step_value step =
     (if truthy (DOMActionStep.inputProperty step)
      then ''input.'' @ or_empty (DOMActionStep.inputProperty step)
      else JSON_stringify (or_empty (DOMActionStep.staticValue step)))"

definition generateDOMStep :: "DOMActionStep \<Rightarrow> nat \<Rightarrow> string" where
  "generateDOMStep step index =
     (let elVar = ''el_'' @ show_nat index;
          query = ''      const '' @ elVar @ '' = document.querySelector(''
                    @ JSON_stringify (DOMActionStep.selector step) @ '');'' in
      if DOMActionStep.action step = ''read'' then
        (let attr = (case readAttribute step of None \<Rightarrow> ''textContent'' | Some a \<Rightarrow> a) in
         join nl
           [query,
            if attr = ''textContent'' \<or> attr = ''innerHTML'' \<or> attr = ''outerHTML''
            then ''      const result_'' @ show_nat index @ '' = '' @ elVar @ ''?.'' @ attr @ '';''
            else if attr = ''value''
            then ''      const result_'' @ show_nat index @ '' = ('' @ elVar
                   @ '' as HTMLInputElement)?.value;''
            else ''      const result_'' @ show_nat index @ '' = '' @ elVar
                   @ ''?.getAttribute('' @ JSON_stringify attr @ '');''])
      else
        join nl
          ([query,
            ''      if (!'' @ elVar @ '') throw new Error(\"Element not found: ''
              @ DOMActionStep.selector step @ ''\");'']
           @ (if DOMActionStep.action step = ''click'' then
                [''      ('' @ elVar @ '' as HTMLElement).click();'']
              else if DOMActionStep.action step = ''fill'' then
                [''      ('' @ elVar @ '' as HTMLInputElement).value = '' @ step_value step @ '';'',
                 ''      '' @ elVar @ ''.dispatchEvent(new Event(\"input\", { bubbles: true }));'',
                 ''      '' @ elVar @ ''.dispatchEvent(new Event(\"change\", { bubbles: true }));'']
              else if DOMActionStep.action step = ''select'' then
                [''      ('' @ elVar @ '' as HTMLSelectElement).value = '' @ step_value step @ '';'',
                 ''      '' @ elVar @ ''.dispatchEvent(new Event(\"change\", { bubbles: true }));'']
              else if DOMActionStep.action step = ''check'' then
                [''      ('' @ elVar @ '' as HTMLInputElement).checked = true;'',
                 ''      '' @ elVar @ ''.dispatchEvent(new Event(\"change\", { bubbles: true }));'']
              else if DOMActionStep.action step = ''submit'' then
                [''      ('' @ elVar @ '' as HTMLFormElement).submit();'']
              else if DOMActionStep.action step = ''scroll'' then
                [''      '' @ elVar @ ''.scrollIntoView({ behavior: \"smooth\" });'']
              else [])))"

text \<open>The lines one pass of the loop pushes for step \<open>i\<close>.\<close>

definition step_lines :: "nat \<times> DOMActionStep \<Rightarrow> string list" where
  "step_lines istep =
     [''      // Step '' @ show_nat (fst istep + 1) @ '': ''
        @ (case DOMActionStep.description (snd istep) of
             None \<Rightarrow> DOMActionStep.action (snd istep) | Some d \<Rightarrow> d),
      generateDOMStep (snd istep) (fst istep)]
     @ (case delay (snd istep) of
          None \<Rightarrow> []
        | Some n \<Rightarrow>
            if num_truthy n
            then [''      await new Promise(resolve => setTimeout(resolve, ''
                    @ num_text n @ ''));'']
            else [])"

definition last_is_read :: "DOMActionStep list \<Rightarrow> bool" where
  "last_is_read ss = (case rev ss of [] \<Rightarrow> False | s # r \<Rightarrow> DOMActionStep.action s = ''read'')"

definition generateDOMActionBody :: "DOMAction \<Rightarrow> string" where
  "generateDOMActionBody a =
     join nl
       ([''    try {'']
        @ concat (map step_lines (enumerate 0 (steps a)))
        @ [if last_is_read (steps a)
           then ''      return textContent(result_'' @ show_nat (length (steps a) - 1)
                  @ '' ?? \"No content found\");''
           else ''      return textContent(\"Action completed successfully\");'']
        @ [''    } catch (error) {'',
           ''      return textContent(`Error: ${error}`);'',
           ''    }''])"

subsection \<open>One file per proposal\<close>

definition annotation_lines :: "ToolProposalAnnotations option \<Rightarrow> string list" where
  "annotation_lines ann =
     (case ann of
        None \<Rightarrow> []
      | Some a \<Rightarrow>
          (let annotationEntries =
                 (case readOnlyHint a of None \<Rightarrow> []
                  | Some b \<Rightarrow> [''    readOnlyHint: '' @ bool_text b])
               @ (case destructiveHint a of None \<Rightarrow> []
                  | Some b \<Rightarrow> [''    destructiveHint: '' @ bool_text b])
               @ (case confirmationHint a of None \<Rightarrow> []
                  | Some b \<Rightarrow> [''    confirmationHint: '' @ bool_text b])
           in if length annotationEntries > 0
              then [''  annotations: {'', join ('','' @ nl) annotationEntries, ''  },'']
              else []))"

text \<open>
  \<open>proposal.actionDetails as JSCallAction\<close> is a cast the compiler does not check:
  when the details are of the other shape, \<open>action.argMapping\<close> (or \<open>action.steps\<close>) is
  \<open>undefined\<close> and reading \<open>map\<close> (or \<open>length\<close>) of it raises a TypeError.
\<close>

definition execute_body :: "ToolProposal \<Rightarrow> error + string" where
  "execute_body proposal =
     (if actionType proposal = ''js-call'' then
        (case actionDetails proposal of
           JSCallDetails a \<Rightarrow> Inr (generateJSCallBody a)
         | DOMDetails d \<Rightarrow>
             Inl (Error ''Cannot read properties of undefined (reading 'map')''))
      else
        (case actionDetails proposal of
           DOMDetails d \<Rightarrow> Inr (generateDOMActionBody d)
         | JSCallDetails a \<Rightarrow>
             Inl (Error ''Cannot read properties of undefined (reading 'length')'')))"

definition generateToolFile :: "ToolProposal \<Rightarrow> error + string" where
  "generateToolFile proposal =
     (case execute_body proposal of
        Inl e \<Rightarrow> Inl e
      | Inr body \<Rightarrow>
          Inr (join nl
            ([''import { defineTool, textContent, jsonContent } from \"webmcp-kit\";'',
              ''import { z } from \"zod\";'',
              [],
              ''const inputSchema = '' @ generateZodSchema (inputSchema proposal) @ '';'',
              [],
              ''export const '' @ name proposal @ ''Tool = defineTool({'',
              ''  name: \"'' @ name proposal @ ''\",'',
              ''  description: '' @ JSON_stringify (ToolProposal.description proposal) @ '','',
              ''  inputSchema,'']
             @ annotation_lines (annotations proposal)
             @ [''  execute: async (input) => {'',
                body,
                ''  },'',
                ''});'',
                [],
                ''// Register the tool when this module is loaded'',
                name proposal @ ''Tool.register();'',
                []])))"

fun generateToolFiles :: "ToolProposal list \<Rightarrow> error + GeneratedFile list" where
  "generateToolFiles [] = Inr []"
| "generateToolFiles (proposal # rest) =
     (case generateToolFile proposal of
        Inl e \<Rightarrow> Inl e
      | Inr c \<Rightarrow>
          (case generateToolFiles rest of
             Inl e \<Rightarrow> Inl e
           | Inr files \<Rightarrow>
               Inr (\<lparr>path = ''tools/'' @ name proposal @ ''.ts'', content = c\<rparr> # files)))"

text \<open>
  The invariant of the data model: the shape of \<open>actionDetails\<close> is the one
  \<open>actionType\<close> names.
\<close>

definition consistent :: "ToolProposal \<Rightarrow> bool" where
  "consistent proposal =
     (case actionDetails proposal of
        JSCallDetails a \<Rightarrow> actionType proposal = ''js-call''
      | DOMDetails d \<Rightarrow> actionType proposal = ''dom-action'')"

text \<open>
  The two proposals of the specification's end-to-end scenario, a js-call tool that
  returns nothing, and a dom-action that clicks and then reads.
\<close>

definition example_getMenu :: ToolProposal where
  "example_getMenu =
     \<lparr>name = ''getMenu'', description = ''Get the pizza menu'',
      inputSchema = \<lparr>ToolInputSchema.type = ''object'', properties = [], required = Some []\<rparr>,
      actionType = ''js-call'',
      actionDetails = JSCallDetails
        \<lparr>functionPath = ''theMenuGetter'', argMapping = [], returnType = Some ''object''\<rparr>,
      annotations = None, urlPattern = None\<rparr>"

definition example_addToCart :: ToolProposal where
  "example_addToCart =
     \<lparr>name = ''addToCart'', description = ''Add a pizza to the cart'',
      inputSchema = \<lparr>ToolInputSchema.type = ''object'',
        properties = [(''pizzaId'',
          ToolInputProperty ''string'' ''The pizza ID'' None None None None)],
        required = Some [''pizzaId'']\<rparr>,
      actionType = ''dom-action'',
      actionDetails = DOMDetails
        \<lparr>steps = [\<lparr>action = ''fill'', selector = ''#pizza-id'', inputProperty = Some ''pizzaId'',
                    staticValue = None, delay = None, readAttribute = None,
                    description = None\<rparr>,
                  \<lparr>action = ''click'', selector = ''#add-btn'', inputProperty = None,
                    staticValue = None, delay = None, readAttribute = None,
                    description = None\<rparr>]\<rparr>,
      annotations = None, urlPattern = None\<rparr>"

definition example_clearCart :: JSCallAction where
  "example_clearCart =
     \<lparr>functionPath = ''window.cart.clear'', argMapping = [], returnType = Some ''void''\<rparr>"

definition example_addItem :: JSCallAction where
  "example_addItem =
     \<lparr>functionPath = ''window.addItem'', argMapping = [''id'', ''qty''],
      returnType = Some ''object''\<rparr>"

definition example_readTotal :: DOMAction where
  "example_readTotal =
     \<lparr>steps = [\<lparr>action = ''click'', selector = ''#cart'', inputProperty = None,
                 staticValue = None, delay = None, readAttribute = None,
                 description = None\<rparr>,
               \<lparr>action = ''read'', selector = ''#total'', inputProperty = None,
                 staticValue = None, delay = None, readAttribute = Some ''textContent'',
                 description = None\<rparr>]\<rparr>"

text \<open>A click on a locator of the kind the DOM extractor itself emits.\<close>

definition example_clickSubmit :: DOMActionStep where
  "example_clickSubmit =
     \<lparr>action = ''click'', selector = ''button[aria-label=\"Submit\"]'',
      inputProperty = None, staticValue = None, delay = None, readAttribute = None,
      description = None\<rparr>"

section \<open>Reply parser (parseToolProposals, src/analysis/propose-tools.ts)\<close>

text \<open>
  A decoded JSON value. An object is the list of its entries, one per key.
\<close>

datatype json =
  JNull | JBool bool | JNumber js_num | JString string
  | JArray "json list" | JObject "(string \<times> json) list"

text \<open>
  \<open>split_first pat s\<close>: the text before and the text after the leftmost occurrence of
  \<open>pat\<close> in \<open>s\<close>.
\<close>

fun split_first :: "string \<Rightarrow> string \<Rightarrow> (string \<times> string) option" where
  "split_first pat [] = (if pat = [] then Some ([], []) else None)"
| "split_first pat (c # cs) =
     (if prefix pat (c # cs) then Some ([], drop (length pat) (c # cs))
      else map_option (\<lambda>ba. (c # fst ba, snd ba)) (split_first pat cs))"

text \<open>
  \<open>agentResponse.match(/```(?:json)?\s*\n?([\s\S]*?)```/)\<close>, group 1. The match starts at
  the leftmost \<open>```\<close>; \<open>json\<close> and the white space after it are taken greedily (none of
  their characters can start a closing fence, so giving them back finds no other match);
  the lazy group then runs to the next \<open>```\<close>. Without a closing fence there is no match
  at all.
\<close>

definition fenceMatch :: "string \<Rightarrow> string option" where
  "fenceMatch agentResponse =
     (case split_first ''```'' agentResponse of
        None \<Rightarrow> None
      | Some (before, opened) \<Rightarrow>
          map_option fst
            (split_first ''```''
               (dropWhile is_space
                  (if prefix ''json'' opened then drop 4 opened else opened))))"

definition payload :: "string \<Rightarrow> string" where
  "payload agentResponse =
     (case fenceMatch agentResponse of
        Some inner \<Rightarrow> trim inner
      | None \<Rightarrow> trim agentResponse)"

text \<open>
  \<open>parseToolProposals\<close>. \<open>JSON.parse\<close> belongs to the platform and is an argument:
  \<open>Inl m\<close> is a SyntaxError with message \<open>m\<close>. The returned list is the decoded array
  itself (\<open>parsed as ToolProposal[]\<close> is a cast). Reading \<open>parsed.tools\<close> of \<open>null\<close> raises
  a TypeError inside the \<open>try\<close> (its message is V8's); of a number, string or boolean
  it gives \<open>undefined\<close>. Every fault raised inside the \<open>try\<close>, the shape fault included,
  is caught and raised again behind the same prefix.
\<close>

definition parse_failure :: "string \<Rightarrow> error" where
  "parse_failure m = Error (''Failed to parse tool proposals: '' @ m)"

definition parseToolProposals ::
    "(string \<Rightarrow> string + json) \<Rightarrow> string \<Rightarrow> error + json list" where
  "parseToolProposals JSON_parse agentResponse =
     (case JSON_parse (payload agentResponse) of
        Inl m \<Rightarrow> Inl (parse_failure m)
      | Inr parsed \<Rightarrow>
          (case parsed of
             JArray xs \<Rightarrow> Inr xs
           | JNull \<Rightarrow>
               Inl (parse_failure ''Cannot read properties of null (reading 'tools')'')
           | JObject entries \<Rightarrow>
               (case map_of entries ''tools'' of
                  Some (JArray xs) \<Rightarrow> Inr xs
                | _ \<Rightarrow> Inl (parse_failure ''Expected an array of tool proposals''))
           | _ \<Rightarrow> Inl (parse_failure ''Expected an array of tool proposals'')))"

text \<open>
  What \<open>JSON.parse\<close> answers on the texts of the examples below (a table of the
  platform's answers on these texts, with V8's message for the text that is not JSON).
\<close>

definition JSON_parse_examples :: "string \<Rightarrow> string + json" where
  "JSON_parse_examples s =
     (if s = ''[1, 2]''
        then Inr (JArray [JNumber \<lparr>num_text = ''1'', num_truthy = True\<rparr>,
                          JNumber \<lparr>num_text = ''2'', num_truthy = True\<rparr>])
      else if s = ''{\"tools\": [true]}'' then Inr (JObject [(''tools'', JArray [JBool True])])
      else if s = ''{\"name\":\"x\"}'' then Inr (JObject [(''name'', JString ''x'')])
      else if s = ''null'' then Inr JNull
      else Inl (''Unexpected token 'o', \"'' @ s @ ''\" is not valid JSON''))"

section \<open>DOM extractor (src/analysis/extract-dom.ts)\<close>

text \<open>
  The accessibility node: role, name, value and children (the fields the extractor
  reads).
\<close>

datatype AccessibilityNode =
  AccessibilityNode string "string option" "string option" "AccessibilityNode list option"

record FlatA11yElement =
  role :: string
  name :: "string option"
  val :: "string option"
  parentRole :: "string option"
  parentName :: "string option"
  depth :: nat

text \<open>
  The fields of \<open>InteractiveElement\<close> the extractor assigns; \<open>text\<close> and \<open>id\<close> of the
  source are \<open>elem_text\<close> and \<open>elem_id\<close> here.
\<close>

record InteractiveElement =
  tag :: string
  type :: "string option"
  selector :: string
  ariaLabel :: "string option"
  elem_text :: "string option"
  name :: "string option"
  elem_id :: "string option"
  placeholder :: "string option"
  href :: "string option"
  role :: "string option"
  dataAttributes :: "(string \<times> string) list option"
  actionHint :: "string option"

record Region =
  type :: string
  selector :: string
  label :: "string option"
  interactiveElements :: "InteractiveElement list"

record PageSnapshot =
  url :: string
  title :: string
  bodyHTML :: string
  accessibilityTree :: "AccessibilityNode option"
  timestamp :: nat
  stepIndex :: int

record DOMAnalysis =
  url :: string
  regions :: "Region list"
  totalInteractiveElements :: nat

subsection \<open>The tree pass\<close>

definition interactiveRoles :: "string list" where
  "interactiveRoles =
     [''button'', ''link'', ''textbox'', ''checkbox'', ''radio'', ''combobox'', ''listbox'',
      ''menuitem'', ''menuitemcheckbox'', ''menuitemradio'', ''option'', ''searchbox'',
      ''slider'', ''spinbutton'', ''switch'', ''tab'', ''treeitem'']"

definition landmarkRoles :: "string list" where
  "landmarkRoles =
     [''banner'', ''navigation'', ''main'', ''contentinfo'', ''complementary'', ''form'',
      ''region'', ''dialog'', ''alertdialog'']"

fun flattenAccessibilityTree ::
    "AccessibilityNode \<Rightarrow> string option \<Rightarrow> string option \<Rightarrow> nat \<Rightarrow> FlatA11yElement list" where
  "flattenAccessibilityTree (AccessibilityNode r n v ch) pRole pName d =
     (if r \<in> set interactiveRoles
      then [\<lparr>FlatA11yElement.role = r, name = n, val = v, parentRole = pRole,
             parentName = pName, depth = d\<rparr>]
      else [])
     @ (case ch of
          None \<Rightarrow> []
        | Some cs \<Rightarrow>
            concat (map (\<lambda>child. flattenAccessibilityTree child
                          (if r \<in> set landmarkRoles then Some r else pRole)
                          (if r \<in> set landmarkRoles then n else pName)
                          (d + 1)) cs))"

text \<open>\<open>mapping[key] ?? fallback\<close> on an object literal, for the keys the callers pass.\<close>

definition lookup_or :: "(string \<times> string) list \<Rightarrow> string \<Rightarrow> string \<Rightarrow> string" where
  "lookup_or mapping fallback key =
     (case map_of mapping key of Some v \<Rightarrow> v | None \<Rightarrow> fallback)"

definition mapRoleToRegionType :: "string \<Rightarrow> string" where
  "mapRoleToRegionType =
     lookup_or
       [(''banner'', ''header''), (''navigation'', ''nav''), (''main'', ''main''),
        (''contentinfo'', ''footer''), (''complementary'', ''sidebar''), (''form'', ''form''),
        (''region'', ''section''), (''dialog'', ''dialog''), (''alertdialog'', ''dialog'')]
       ''unknown''"

definition roleToTag :: "string \<Rightarrow> string" where
  "roleToTag =
     lookup_or
       [(''banner'', ''header''), (''navigation'', ''nav''), (''main'', ''main''),
        (''contentinfo'', ''footer''), (''complementary'', ''aside''), (''form'', ''form''),
        (''dialog'', ''dialog'')]
       ''section''"

definition buildRegionSelector :: "string \<Rightarrow> string option \<Rightarrow> string" where
  "buildRegionSelector r lab =
     (if truthy lab
      then ''[role=\"'' @ r @ ''\"][aria-label=\"'' @ or_empty lab @ ''\"], '' @ roleToTag r
      else ''[role=\"'' @ r @ ''\"], '' @ roleToTag r)"

definition roleToHTMLTag :: "string \<Rightarrow> string" where
  "roleToHTMLTag =
     lookup_or
       [(''button'', ''button''), (''link'', ''a''), (''textbox'', ''input''),
        (''checkbox'', ''input''), (''radio'', ''input''), (''combobox'', ''select''),
        (''listbox'', ''select''), (''searchbox'', ''input''), (''slider'', ''input''),
        (''spinbutton'', ''input''), (''switch'', ''input''), (''tab'', ''button''),
        (''menuitem'', ''button'')]
       ''div''"

definition buildElementSelector :: "FlatA11yElement \<Rightarrow> string" where
  "buildElementSelector el =
     (if truthy (FlatA11yElement.name el)
      then roleToHTMLTag (FlatA11yElement.role el) @ ''[aria-label=\"''
             @ or_empty (FlatA11yElement.name el) @ ''\"], ''
             @ roleToHTMLTag (FlatA11yElement.role el) @ '':has-text(\"''
             @ or_empty (FlatA11yElement.name el) @ ''\")''
      else roleToHTMLTag (FlatA11yElement.role el) @ ''[role=\"''
             @ FlatA11yElement.role el @ ''\"]'')"

definition inferActionHint :: "string \<Rightarrow> string" where
  "inferActionHint =
     lookup_or
       [(''button'', ''trigger''), (''link'', ''navigation''), (''textbox'', ''input''),
        (''checkbox'', ''toggle''), (''radio'', ''selection''), (''combobox'', ''selection''),
        (''listbox'', ''selection''), (''searchbox'', ''input''), (''slider'', ''input''),
        (''spinbutton'', ''input''), (''switch'', ''toggle''), (''tab'', ''navigation''),
        (''menuitem'', ''trigger'')]
       ''trigger''"

definition a11yToInteractiveElement :: "FlatA11yElement \<Rightarrow> InteractiveElement" where
  "a11yToInteractiveElement el =
     \<lparr>tag = roleToHTMLTag (FlatA11yElement.role el),
      type = None,
      selector = buildElementSelector el,
      ariaLabel = FlatA11yElement.name el,
      elem_text = FlatA11yElement.name el,
      name = None, elem_id = None, placeholder = None, href = None,
      role = Some (FlatA11yElement.role el),
      dataAttributes = None,
      actionHint = Some (inferActionHint (FlatA11yElement.role el))\<rparr>"

text \<open>\<open>groupByRegion\<close>: \<open>regionMap\<close> is a \<open>Map\<close> in insertion order, keyed by the role.\<close>

definition group_step ::
    "(string \<times> Region) list \<Rightarrow> FlatA11yElement \<Rightarrow> (string \<times> Region) list" where
  "group_step regionMap el =
     (let regionKey = (case parentRole el of None \<Rightarrow> ''unknown'' | Some r \<Rightarrow> r);
          regionLabel = parentName el;
          regionMap1 =
            (if map_of regionMap regionKey = None
             then regionMap @
                    [(regionKey,
                      \<lparr>type = mapRoleToRegionType regionKey,
                       selector = buildRegionSelector regionKey regionLabel,
                       label = regionLabel,
                       interactiveElements = []\<rparr>)]
             else regionMap)
      in AList.map_entry regionKey
           (\<lambda>region. region\<lparr>interactiveElements :=
                        interactiveElements region @ [a11yToInteractiveElement el]\<rparr>)
           regionMap1)"

definition groupByRegion :: "FlatA11yElement list \<Rightarrow> Region list" where
  "groupByRegion elements = map snd (foldl group_step [] elements)"

subsection \<open>The markup pass: attributes of one element\<close>

text \<open>Matching under the \<open>i\<close> flag: ASCII letters match in either case.\<close>

fun ci_prefix :: "string \<Rightarrow> string \<Rightarrow> bool" where
  "ci_prefix [] s = True"
| "ci_prefix (p # ps) [] = False"
| "ci_prefix (p # ps) (c # cs) =
     (if p = c then ci_prefix ps cs
      else if to_lower p = to_lower c then ci_prefix ps cs else False)"

text \<open>
  \<open>getAttr(name)\<close>, that is \<open>new RegExp(name + '="([^"]*)"', "i").exec(attrsStr)?.[1]\<close>: the
  leftmost place where \<open>name="\<close> stands (in any case, anywhere in the text, also at
  the end of a longer attribute name) and a closing quote follows; the value runs to
  that quote.
\<close>

fun getAttr :: "string \<Rightarrow> string \<Rightarrow> string option" where
  "getAttr key [] = None"
| "getAttr key (c # cs) =
     (if ci_prefix (key @ ''=\"'') (c # cs)
      then (if CHR 0x22 \<in> set (drop (length key + 2) (c # cs))
            then Some (takeWhile (\<lambda>d. d \<noteq> CHR 0x22) (drop (length key + 2) (c # cs)))
            else getAttr key cs)
      else getAttr key cs)"

text \<open>
  The loop over \<open>/data-([\w-]+)="([^"]*)"/gi\<close>: each match assigns
  \<open>dataAttrs[key] = value\<close>, and the search goes on after the closing quote.
\<close>

function data_attrs :: "(string \<times> string) list \<Rightarrow> string \<Rightarrow> (string \<times> string) list" where
  "data_attrs acc [] = acc"
| "data_attrs acc (c # cs) =
     (if ci_prefix ''data-'' (c # cs) then
        (let key = takeWhile (\<lambda>d. is_word d \<or> d = CHR ''-'') (drop 5 (c # cs));
             rest = dropWhile (\<lambda>d. is_word d \<or> d = CHR ''-'') (drop 5 (c # cs)) in
         if key \<noteq> [] \<and> prefix ''=\"'' rest \<and> CHR 0x22 \<in> set (drop 2 rest)
         then data_attrs
                (AList.update key (takeWhile (\<lambda>d. d \<noteq> CHR 0x22) (drop 2 rest)) acc)
                (tl (dropWhile (\<lambda>d. d \<noteq> CHR 0x22) (drop 2 rest)))
         else data_attrs acc cs)
      else data_attrs acc cs)"
  by pat_completeness auto
termination
proof (relation "measure (\<lambda>(acc, s). length s)")
  fix acc :: "(string \<times> string) list" and c :: char and cs :: string
    and key rest :: string
  assume "rest = dropWhile (\<lambda>d. is_word d \<or> d = CHR ''-'') (drop 5 (c # cs))"
  then have "length rest \<le> length (c # cs)"
    by (metis length_dropWhile_le length_drop diff_le_self le_trans)
  moreover have "length (tl (dropWhile (\<lambda>d. d \<noteq> CHR 0x22) (drop 2 rest))) \<le> length rest - 2"
    by (metis length_tl length_dropWhile_le length_drop diff_le_self le_trans)
  moreover assume "key \<noteq> [] \<and> prefix ''=\"'' rest \<and> CHR 0x22 \<in> set (drop 2 rest)"
  then have "2 \<le> length rest"
    by (auto simp: prefix_def)
  ultimately show
    "((AList.update key (takeWhile (\<lambda>d. d \<noteq> CHR 0x22) (drop 2 rest)) acc,
       tl (dropWhile (\<lambda>d. d \<noteq> CHR 0x22) (drop 2 rest))), (acc, c # cs))
       \<in> measure (\<lambda>(acc, s). length s)"
    by simp
qed simp_all

definition inferTagActionHint :: "string \<Rightarrow> string option \<Rightarrow> string" where
  "inferTagActionHint tg ty =
     (if tg = ''a'' then ''navigation''
      else if tg = ''button'' then (if ty = Some ''submit'' then ''submission'' else ''trigger'')
      else if tg = ''input'' then
        (if ty = Some ''checkbox'' \<or> ty = Some ''radio'' then ''toggle''
         else if ty = Some ''submit'' then ''submission''
         else ''input'')
      else if tg = ''select'' \<or> tg = ''listbox'' then ''selection''
      else if tg = ''textarea'' then ''input''
      else ''trigger'')"

definition parseHTMLAttributes ::
    "string \<Rightarrow> string \<Rightarrow> string option \<Rightarrow> InteractiveElement option" where
  "parseHTMLAttributes tg attrsStr textContent =
     (let ident = getAttr ''id'' attrsStr;
          nm = getAttr ''name'' attrsStr;
          ty = getAttr ''type'' attrsStr;
          aria = getAttr ''aria-label'' attrsStr;
          ph = getAttr ''placeholder'' attrsStr;
          hr = getAttr ''href'' attrsStr;
          rl = getAttr ''role'' attrsStr;
          sel =
            (if truthy ident then Some (''#'' @ or_empty ident)
             else if truthy nm then Some (tg @ ''[name=\"'' @ or_empty nm @ ''\"]'')
             else if truthy aria then Some (tg @ ''[aria-label=\"'' @ or_empty aria @ ''\"]'')
             else if truthy ph then Some (tg @ ''[placeholder=\"'' @ or_empty ph @ ''\"]'')
             else if truthy textContent
               then Some (tg @ '':has-text(\"'' @ take 50 (or_empty textContent) @ ''\")'')
             else None);
          dataAttrs = data_attrs [] attrsStr
      in case sel of
           None \<Rightarrow> None
         | Some s \<Rightarrow>
             Some \<lparr>tag = tg, type = ty, selector = s, ariaLabel = aria,
                   elem_text = textContent, name = nm, elem_id = ident, placeholder = ph,
                   href = hr, role = rl,
                   dataAttributes = (if length dataAttrs > 0 then Some dataAttrs else None),
                   actionHint = Some (inferTagActionHint tg ty)\<rparr>)"

subsection \<open>The markup pass: the six patterns\<close>

text \<open>
  \<open>split_ci pat s\<close>: the text before and after the leftmost occurrence of \<open>pat\<close> in \<open>s\<close>,
  letters compared in either case (the closing tags under the \<open>i\<close> flag).
\<close>

fun split_ci :: "string \<Rightarrow> string \<Rightarrow> (string \<times> string) option" where
  "split_ci pat [] = (if pat = [] then Some ([], []) else None)"
| "split_ci pat (c # cs) =
     (if ci_prefix pat (c # cs) then Some ([], drop (length pat) (c # cs))
      else map_option (\<lambda>ba. (c # fst ba, snd ba)) (split_ci pat cs))"

text \<open>
  \<open>\b\<close> after a tag name: the next character is not a word character (or the text
  ends). \<open>([^>]*)>\<close>: the attribute text runs to the first \<open>>\<close>, which must be there;
  no shorter or longer run is followed by \<open>>\<close>.
\<close>

definition boundary_after :: "string \<Rightarrow> bool" where
  "boundary_after rest = (case rest of [] \<Rightarrow> True | c # cs \<Rightarrow> \<not> is_word c)"

definition open_tag :: "string \<Rightarrow> (string \<times> string) option" where
  "open_tag rest =
     (if CHR ''>'' \<in> set rest
      then Some (takeWhile (\<lambda>d. d \<noteq> CHR ''>'') rest, tl (dropWhile (\<lambda>d. d \<noteq> CHR ''>'') rest))
      else None)"

lemma split_ci_length:
  "split_ci pat s = Some (b, a) \<Longrightarrow> length a \<le> length s"
proof (induction s arbitrary: b a)
  case Nil
  then show ?case by (simp split: if_splits)
next
  case (Cons c cs)
  show ?case
  proof (cases "ci_prefix pat (c # cs)")
    case True
    with Cons.prems show ?thesis by auto
  next
    case False
    with Cons.prems obtain b' where "split_ci pat cs = Some (b', a)"
      by (auto split: option.splits)
    from Cons.IH [OF this] show ?thesis by simp
  qed
qed

lemma open_tag_length:
  "open_tag rest = Some (attrs, body) \<Longrightarrow> length body < length rest"
proof -
  assume a: "open_tag rest = Some (attrs, body)"
  then have m: "CHR ''>'' \<in> set rest" and b: "body = tl (dropWhile (\<lambda>d. d \<noteq> CHR ''>'') rest)"
    by (auto simp: open_tag_def split: if_splits)
  from m have "dropWhile (\<lambda>d. d \<noteq> CHR ''>'') rest \<noteq> []"
    by (simp add: dropWhile_eq_Nil_conv) 
  then have "length body < length (dropWhile (\<lambda>d. d \<noteq> CHR ''>'') rest)"
    using b by (cases "dropWhile (\<lambda>d. d \<noteq> CHR ''>'') rest") auto
  also have "\<dots> \<le> length rest" by (rule length_dropWhile_le)
  finally show ?thesis .
qed

text \<open>
  The \<open>exec\<close> loop of \<open>/<button\b([^>]*)>([\s\S]*?)<\/button>/gi\<close> (select and textarea
  have the same shape without the second group): each match gives the attribute text
  and the text up to the first closing tag, and the search goes on after that closing
  tag; where no match starts, the search moves one character on.
\<close>

function scan_paired :: "string \<Rightarrow> string \<Rightarrow> (string \<times> string) list" where
  "scan_paired tg [] = []"
| "scan_paired tg (c # cs) =
     (if c = CHR ''<'' then
        (if ci_prefix tg cs then
           (if boundary_after (drop (length tg) cs) then
              (case open_tag (drop (length tg) cs) of
                 None \<Rightarrow> scan_paired tg cs
               | Some (attrs, body) \<Rightarrow>
                   (case split_ci (''</'' @ tg @ ''>'') body of
                      None \<Rightarrow> scan_paired tg cs
                    | Some (inner, remaining) \<Rightarrow> (attrs, inner) # scan_paired tg remaining))
            else scan_paired tg cs)
         else scan_paired tg cs)
      else scan_paired tg cs)"
  by pat_completeness auto
termination
proof (relation "measure (\<lambda>(tg, s). length s)")
  fix tg :: string and c :: char and cs attrs body inner remaining :: string
    and x2 :: "string \<times> string" and x2a :: "string \<times> string"
  assume o: "open_tag (drop (length tg) cs) = Some x2" "(attrs, body) = x2"
    and s: "split_ci (''</'' @ tg @ ''>'') body = Some x2a" "(inner, remaining) = x2a"
  from o have "length body < length (drop (length tg) cs)"
    using open_tag_length by metis
  moreover from s have "length remaining \<le> length body"
    using split_ci_length by metis
  ultimately show "((tg, remaining), (tg, c # cs)) \<in> measure (\<lambda>(tg, s). length s)"
    by simp
qed simp_all

text \<open>The \<open>exec\<close> loop of \<open>/<input\b([^>]*)\/?\s*>/gi\<close>: group 1 takes all up to \<open>>\<close>.\<close>

function scan_open :: "string \<Rightarrow> string \<Rightarrow> string list" where
  "scan_open tg [] = []"
| "scan_open tg (c # cs) =
     (if c = CHR ''<'' then
        (if ci_prefix tg cs then
           (if boundary_after (drop (length tg) cs) then
              (case open_tag (drop (length tg) cs) of
                 None \<Rightarrow> scan_open tg cs
               | Some (attrs, remaining) \<Rightarrow> attrs # scan_open tg remaining)
            else scan_open tg cs)
         else scan_open tg cs)
      else scan_open tg cs)"
  by pat_completeness auto
termination
proof (relation "measure (\<lambda>(tg, s). length s)")
  fix tg :: string and c :: char and cs attrs remaining :: string
    and x2 :: "string \<times> string"
  assume o: "open_tag (drop (length tg) cs) = Some x2" "(attrs, remaining) = x2"
  then have "length remaining < length (drop (length tg) cs)"
    using open_tag_length by metis
  then show "((tg, remaining), (tg, c # cs)) \<in> measure (\<lambda>(tg, s). length s)"
    by simp
qed simp_all

text \<open>
  \<open>/<a\b([^>]*(?:onclick|href="(?!#|javascript:void))[^>]*)>([\s\S]*?)<\/a>/gi\<close>: as for
  a button, if somewhere before the first \<open>>\<close> stands \<open>onclick\<close>, or \<open>href="\<close> not
  followed by \<open>#\<close> or \<open>javascript:void\<close>.
\<close>

fun anchor_trigger :: "string \<Rightarrow> bool" where
  "anchor_trigger [] = False"
| "anchor_trigger (c # cs) =
     (if c = CHR ''>'' then False
      else if ci_prefix ''onclick'' (c # cs) then True
      else if ci_prefix ''href=\"'' (c # cs) then
        (if prefix ''#'' (drop 6 (c # cs)) then anchor_trigger cs
         else if ci_prefix ''javascript:void'' (drop 6 (c # cs)) then anchor_trigger cs
         else True)
      else anchor_trigger cs)"

function scan_anchor :: "string \<Rightarrow> (string \<times> string) list" where
  "scan_anchor [] = []"
| "scan_anchor (c # cs) =
     (if c = CHR ''<'' then
        (if ci_prefix ''a'' cs then
           (if boundary_after (drop 1 cs) then
              (if anchor_trigger (drop 1 cs) then
                 (case open_tag (drop 1 cs) of
                    None \<Rightarrow> scan_anchor cs
                  | Some (attrs, body) \<Rightarrow>
                      (case split_ci ''</a>'' body of
                         None \<Rightarrow> scan_anchor cs
                       | Some (inner, remaining) \<Rightarrow> (attrs, inner) # scan_anchor remaining))
               else scan_anchor cs)
            else scan_anchor cs)
         else scan_anchor cs)
      else scan_anchor cs)"
  by pat_completeness auto
termination
proof (relation "measure length")
  fix c :: char and cs attrs body inner remaining :: string
    and x2 :: "string \<times> string" and x2a :: "string \<times> string"
  assume o: "open_tag (drop 1 cs) = Some x2" "(attrs, body) = x2"
    and s: "split_ci ''</a>'' body = Some x2a" "(inner, remaining) = x2a"
  from o have "length body < length (drop 1 cs)"
    using open_tag_length by metis
  moreover from s have "length remaining \<le> length body"
    using split_ci_length by metis
  ultimately show "(remaining, c # cs) \<in> measure length"
    by simp
qed simp_all

text \<open>
  \<open>/<(\w+)\b([^>]*onclick="[^"]*"[^>]*)>([\s\S]*?)<\/\1>/gi\<close>. After the tag name (the
  longest run of word characters), \<open>[^>]*\<close> is tried from its longest run down
  (\<open>dyn_first\<close>): at a place \<open>q\<close> where \<open>onclick="\<close> stands, the handler runs to the next
  quote, the rest of the attributes to the next \<open>>\<close>, and the content to the first
  closing tag of the same name (\<open>dyn_try\<close>); the first place that gives a match wins.
  The groups are the tag name, the attribute text and the content.
\<close>

definition dyn_try :: "string \<Rightarrow> string \<Rightarrow> nat \<Rightarrow> (string \<times> string \<times> string) option" where
  "dyn_try tg rest q =
     (if ci_prefix ''onclick=\"'' (drop q rest) then
        (if CHR 0x22 \<in> set (drop (q + 9) rest) then
           (case open_tag (tl (dropWhile (\<lambda>d. d \<noteq> CHR 0x22) (drop (q + 9) rest))) of
              None \<Rightarrow> None
            | Some (after_value, body) \<Rightarrow>
                (case split_ci (''</'' @ tg @ ''>'') body of
                   None \<Rightarrow> None
                 | Some (inner, remaining) \<Rightarrow>
                     Some (take (length rest - length body - 1) rest, inner, remaining)))
         else None)
      else None)"

fun dyn_first :: "string \<Rightarrow> string \<Rightarrow> nat \<Rightarrow> (string \<times> string \<times> string) option" where
  "dyn_first tg rest 0 = dyn_try tg rest 0"
| "dyn_first tg rest (Suc q) =
     (case dyn_try tg rest (Suc q) of
        Some m \<Rightarrow> Some m
      | None \<Rightarrow> dyn_first tg rest q)"

definition dyn_match :: "string \<Rightarrow> string \<Rightarrow> (string \<times> string \<times> string) option" where
  "dyn_match tg rest = dyn_first tg rest (length (takeWhile (\<lambda>d. d \<noteq> CHR ''>'') rest))"

lemma dyn_try_length:
  "dyn_try tg rest q = Some (attrs, inner, remaining) \<Longrightarrow> length remaining \<le> length rest"
proof -
  assume a: "dyn_try tg rest q = Some (attrs, inner, remaining)"
  let ?v = "tl (dropWhile (\<lambda>d. d \<noteq> CHR 0x22) (drop (q + 9) rest))"
  from a obtain after_value body where
    o: "open_tag ?v = Some (after_value, body)"
    and s: "split_ci (''</'' @ tg @ ''>'') body = Some (inner, remaining)"
    by (auto simp: dyn_try_def split: if_splits option.splits)
  have "length remaining \<le> length body" using s by (rule split_ci_length)
  also have "\<dots> \<le> length ?v" using open_tag_length [OF o] by simp
  also have "\<dots> \<le> length (dropWhile (\<lambda>d. d \<noteq> CHR 0x22) (drop (q + 9) rest))" by simp
  also have "\<dots> \<le> length (drop (q + 9) rest)" by (rule length_dropWhile_le)
  also have "\<dots> \<le> length rest" by simp
  finally show ?thesis .
qed

lemma dyn_first_length:
  "dyn_first tg rest q = Some (attrs, inner, remaining) \<Longrightarrow> length remaining \<le> length rest"
  by (induction q) (auto split: option.splits dest: dyn_try_length)

lemma dyn_match_length:
  "dyn_match tg rest = Some (attrs, inner, remaining) \<Longrightarrow> length remaining \<le> length rest"
  unfolding dyn_match_def by (rule dyn_first_length)

function scan_dynamic :: "string \<Rightarrow> (string \<times> string \<times> string) list" where
  "scan_dynamic [] = []"
| "scan_dynamic (c # cs) =
     (if c = CHR ''<'' then
        (if takeWhile is_word cs \<noteq> [] then
           (case dyn_match (takeWhile is_word cs) (dropWhile is_word cs) of
              None \<Rightarrow> scan_dynamic cs
            | Some (attrs, inner, remaining) \<Rightarrow>
                (takeWhile is_word cs, attrs, inner) # scan_dynamic remaining)
         else scan_dynamic cs)
      else scan_dynamic cs)"
  by pat_completeness auto
termination
proof (relation "measure length")
  fix c :: char and cs attrs inner remaining :: string
    and x2 :: "string \<times> string \<times> string" and y :: "string \<times> string"
  assume "dyn_match (takeWhile is_word cs) (dropWhile is_word cs) = Some x2"
    "(attrs, y) = x2" "(inner, remaining) = y"
  then have "dyn_match (takeWhile is_word cs) (dropWhile is_word cs)
               = Some (attrs, inner, remaining)"
    by simp
  then have "length remaining \<le> length (dropWhile is_word cs)"
    by (rule dyn_match_length)
  also have "\<dots> \<le> length cs" by (rule length_dropWhile_le)
  finally show "(remaining, c # cs) \<in> measure length" by simp
qed simp_all

text \<open>\<open>.replace(/<[^>]*>/g, "")\<close>.\<close>

function strip_tags :: "string \<Rightarrow> string" where
  "strip_tags [] = []"
| "strip_tags (c # cs) =
     (if c = CHR ''<'' then
        (if CHR ''>'' \<in> set cs
         then strip_tags (tl (dropWhile (\<lambda>d. d \<noteq> CHR ''>'') cs))
         else c # strip_tags cs)
      else c # strip_tags cs)"
  by pat_completeness auto
termination
proof (relation "measure length")
  fix c :: char and cs :: string
  have "length (tl (dropWhile (\<lambda>d. d \<noteq> CHR ''>'') cs)) \<le> length cs"
    by (metis length_tl length_dropWhile_le diff_le_self le_trans)
  then show "(tl (dropWhile (\<lambda>d. d \<noteq> CHR ''>'') cs), c # cs) \<in> measure length"
    by simp
qed simp_all

text \<open>
  The body of the loop in \<open>extractFromHTML\<close>, on the groups 1 and 2 of a match:
  \<open>attrs = match[1] ?? ""\<close>, \<open>textContent = match[2]?.replace(...).trim()\<close>, and the tag is
  \<open>match[1] ?? "div"\<close> for the pattern tagged \<open>dynamic\<close>.
\<close>

definition element_of_match ::
    "string \<Rightarrow> string option \<times> string option \<Rightarrow> InteractiveElement option" where
  "element_of_match ptag m =
     parseHTMLAttributes
       (if ptag = ''dynamic'' then (case fst m of None \<Rightarrow> ''div'' | Some t \<Rightarrow> t) else ptag)
       (or_empty (fst m))
       (map_option (\<lambda>t. trim (strip_tags t)) (snd m))"

text \<open>The matches of the six patterns on the markup, in the order of the source.\<close>

definition pattern_matches ::
    "string \<Rightarrow> (string \<times> (string option \<times> string option) list) list" where
  "pattern_matches html =
     [(''button'', map (\<lambda>(attrs, inner). (Some attrs, Some inner))
                   (scan_paired ''button'' html)),
      (''input'', map (\<lambda>attrs. (Some attrs, None)) (scan_open ''input'' html)),
      (''select'', map (\<lambda>(attrs, inner). (Some attrs, None))
                   (scan_paired ''select'' html)),
      (''textarea'', map (\<lambda>(attrs, inner). (Some attrs, None))
                   (scan_paired ''textarea'' html)),
      (''a'', map (\<lambda>(attrs, inner). (Some attrs, Some inner)) (scan_anchor html)),
      (''dynamic'', map (\<lambda>(tg, attrs, inner). (Some tg, Some attrs))
                   (scan_dynamic html))]"

definition extractFromHTML :: "string \<Rightarrow> InteractiveElement list" where
  "extractFromHTML html =
     concat (map (\<lambda>(ptag, ms). List.map_filter (element_of_match ptag) ms)
               (pattern_matches html))"

subsection \<open>Merging the two passes\<close>

text \<open>
  \<open>unknownRegion\<close> is the first region of type \<open>unknown\<close>; when there is none, one is
  pushed at the end before the first element is added, and it is then the first of its
  type.
\<close>

fun push_unknown :: "InteractiveElement \<Rightarrow> Region list \<Rightarrow> Region list" where
  "push_unknown el [] =
     [\<lparr>type = ''unknown'', selector = ''body'', label = None, interactiveElements = [el]\<rparr>]"
| "push_unknown el (r # rs) =
     (if Region.type r = ''unknown''
      then r\<lparr>interactiveElements := interactiveElements r @ [el]\<rparr> # rs
      else r # push_unknown el rs)"

definition merge_step ::
    "Region list \<times> string list \<Rightarrow> InteractiveElement \<Rightarrow> Region list \<times> string list" where
  "merge_step st el =
     (if InteractiveElement.selector el \<in> set (snd st) then st
      else (push_unknown el (fst st), set_add (InteractiveElement.selector el) (snd st)))"

definition mergeHTMLElements :: "Region list \<Rightarrow> InteractiveElement list \<Rightarrow> Region list" where
  "mergeHTMLElements regs htmlElements =
     fst (foldl merge_step
            (regs, foldl (\<lambda>acc s. set_add s acc) []
                     (map InteractiveElement.selector (concat (map interactiveElements regs))))
            htmlElements)"

definition extractDOM :: "PageSnapshot \<Rightarrow> DOMAnalysis" where
  "extractDOM snapshot =
     (let regs0 = (case accessibilityTree snapshot of
                     None \<Rightarrow> []
                   | Some tree \<Rightarrow> groupByRegion (flattenAccessibilityTree tree None None 0));
          regs = mergeHTMLElements regs0 (extractFromHTML (bodyHTML snapshot))
      in \<lparr>url = PageSnapshot.url snapshot,
          regions = regs,
          totalInteractiveElements =
            foldl (\<lambda>sum region. sum + length (interactiveElements region)) 0 regs\<rparr>)"

text \<open>
  The snapshot of the repository's test "merges HTML elements without duplicating": a
  Submit button in the accessibility tree, and the same button and a Cancel button in
  the markup.
\<close>

definition submit_snapshot :: PageSnapshot where
  "submit_snapshot =
     \<lparr>PageSnapshot.url = ''https://example.com'', title = ''Test Page'',
      bodyHTML = ''<body>\<newline>        <main>\<newline>          <button aria-label=\"Submit\">Submit</button>\<newline>          <button id=\"cancel-btn\">Cancel</button>\<newline>        </main>\<newline>      </body>'',
      accessibilityTree = Some
        (AccessibilityNode ''WebArea'' None None (Some
          [AccessibilityNode ''main'' None None (Some
            [AccessibilityNode ''button'' (Some ''Submit'') None None])])),
      timestamp = 0, stepIndex = - 1\<rparr>"

text \<open>
  The interactive elements of all regions, in order; the total of an analysis is the length of
  this list.
\<close>

definition all_elements :: "Region list \<Rightarrow> InteractiveElement list" where
  "all_elements regs = concat (map interactiveElements regs)"

section \<open>Session recorder: the counter and the log\<close>










section \<open>Session tools: the derivation at close\<close>

lemma first_occurrences_set [simp]: "set (first_occurrences xs) = set xs"
  by (induction xs rule: first_occurrences.induct) auto

lemma first_occurrences_filter:
  "first_occurrences (filter P xs) = filter P (first_occurrences xs)"
proof (induction xs rule: first_occurrences.induct)
  case 1
  then show ?case by simp
next
  case (2 x xs)
  let ?Q = "\<lambda>y. y \<noteq> x"
  have c: "filter ?Q (filter P xs) = filter P (filter ?Q xs)"
    by (induction xs) auto
  have d: "\<not> P x \<Longrightarrow> filter P (filter ?Q xs) = filter P xs"
    by (induction xs) auto
  have ih: "first_occurrences (filter P (filter ?Q xs))
              = filter P (first_occurrences (filter ?Q xs))"
    by (rule "2.IH")
  show ?case
  proof (cases "P x")
    case True
    have "first_occurrences (filter P (x # xs))
            = x # first_occurrences (filter ?Q (filter P xs))"
      using True by (simp del: filter_filter)
    also have "\<dots> = x # filter P (first_occurrences (filter ?Q xs))"
      by (simp only: c ih)
    also have "\<dots> = filter P (first_occurrences (x # xs))"
      using True by (simp del: filter_filter)
    finally show ?thesis .
  next
    case False
    have "first_occurrences (filter P (x # xs)) = first_occurrences (filter P xs)"
      using False by simp
    also have "\<dots> = first_occurrences (filter P (filter ?Q xs))"
      using d [OF False] by (simp del: filter_filter)
    also have "\<dots> = filter P (first_occurrences (filter ?Q xs))"
      by (rule ih)
    also have "\<dots> = filter P (first_occurrences (x # xs))"
      using False by (simp del: filter_filter)
    finally show ?thesis .
  qed
qed

lemma first_occurrences_distinct [simp]: "distinct (first_occurrences xs)"
  by (induction xs rule: first_occurrences.induct) (auto simp: first_occurrences_filter)






















section \<open>Tool code generator: the emitted text\<close>


lemma generateToolFile_consistent:
  "consistent p \<Longrightarrow> \<exists>c. generateToolFile p = Inr c"
  by (auto simp: consistent_def generateToolFile_def execute_body_def split: action_details.splits)

lemma generateToolFiles_shape:
  "list_all consistent ps \<Longrightarrow>
     \<exists>files. generateToolFiles ps = Inr files \<and> length files = length ps
       \<and> map path files = map (\<lambda>p. ''tools/'' @ ToolProposal.name p @ ''.ts'') ps
       \<and> map (\<lambda>f. Inr (content f)) files = map generateToolFile ps"
proof (induction ps)
  case Nil
  then show ?case by simp
next
  case (Cons p ps)
  then obtain files where f: "generateToolFiles ps = Inr files" "length files = length ps"
      "map path files = map (\<lambda>p. ''tools/'' @ ToolProposal.name p @ ''.ts'') ps"
      "map (\<lambda>f. Inr (content f)) files = map generateToolFile ps"
    by auto
  from Cons.prems obtain c where c: "generateToolFile p = Inr c"
    using generateToolFile_consistent by auto
  show ?case using f c by simp
qed

lemma jscall_void:
  "returnType a = Some ''void'' \<Longrightarrow>
     generateJSCallBody a =
       join nl
         [''    try {'',
          ''      // Call the page's JS function directly'',
          ''      const fn = '' @ functionPath a @ '';'',
          ''      if (typeof fn !== \"function\") {'',
          ''        return textContent(\"Error: '' @ functionPath a
             @ '' is not available on this page\");'',
          ''      }'',
          ''      fn('' @ join '', '' (map (\<lambda>x. ''input.'' @ x) (argMapping a)) @ '');'',
          ''      return textContent(\"Action completed successfully\");'',
          ''    } catch (error) {'',
          ''      return textContent(`Error calling '' @ functionPath a @ '': ${error}`);'',
          ''    }'']"
  by (simp add: generateJSCallBody_def Let_def)

lemma jscall_other:
  "returnType a \<noteq> Some ''void'' \<Longrightarrow>
     generateJSCallBody a =
       join nl
         [''    try {'',
          ''      // Call the page's JS function directly'',
          ''      const fn = '' @ functionPath a @ '';'',
          ''      if (typeof fn !== \"function\") {'',
          ''        return textContent(\"Error: '' @ functionPath a
             @ '' is not available on this page\");'',
          ''      }'',
          ''      const result = fn('' @ join '', '' (map (\<lambda>x. ''input.'' @ x) (argMapping a)) @ '');'',
          ''      return jsonContent(result);'',
          ''    } catch (error) {'',
          ''      return textContent(`Error calling '' @ functionPath a @ '': ${error}`);'',
          ''    }'']"
  by (simp add: generateJSCallBody_def Let_def)

lemma last_is_read_iff:
  "last_is_read ss \<longleftrightarrow> ss \<noteq> [] \<and> DOMActionStep.action (last ss) = ''read''"
  by (cases ss rule: rev_cases) (simp_all add: last_is_read_def)

lemma dom_body_read:
  "steps d \<noteq> [] \<Longrightarrow> DOMActionStep.action (last (steps d)) = ''read'' \<Longrightarrow>
   generateDOMActionBody d =
     join nl
       ([''    try {'']
        @ concat (map step_lines (enumerate 0 (steps d)))
        @ [''      return textContent(result_'' @ show_nat (length (steps d) - 1)
             @ '' ?? \"No content found\");'',
           ''    } catch (error) {'',
           ''      return textContent(`Error: ${error}`);'',
           ''    }''])"
  by (simp add: generateDOMActionBody_def last_is_read_iff)

lemma read_step_text:
  "DOMActionStep.action s = ''read'' \<Longrightarrow>
   generateDOMStep s i =
     join nl
       [''      const el_'' @ show_nat i @ '' = document.querySelector(''
          @ JSON_stringify (DOMActionStep.selector s) @ '');'',
        ''      const result_'' @ show_nat i @ '' = ''
          @ (let attr = (case readAttribute s of None \<Rightarrow> ''textContent'' | Some a \<Rightarrow> a) in
             if attr = ''textContent'' \<or> attr = ''innerHTML'' \<or> attr = ''outerHTML''
             then ''el_'' @ show_nat i @ ''?.'' @ attr @ '';''
             else if attr = ''value''
             then ''(el_'' @ show_nat i @ '' as HTMLInputElement)?.value;''
             else ''el_'' @ show_nat i @ ''?.getAttribute('' @ JSON_stringify attr @ '');'')]"
  by (simp add: generateDOMStep_def Let_def)

lemma last_step_in_lines:
  "ss \<noteq> [] \<Longrightarrow>
   generateDOMStep (last ss) (length ss - 1) \<in> set (concat (map step_lines (enumerate 0 ss)))"
proof -
  assume ne: "ss \<noteq> []"
  then have "(length ss - 1, last ss) \<in> set (enumerate 0 ss)"
    by (simp add: in_set_enumerate_eq last_conv_nth)
  moreover have "generateDOMStep (last ss) (length ss - 1)
                   \<in> set (step_lines (length ss - 1, last ss))"
    by (simp add: step_lines_def)
  ultimately show ?thesis by auto
qed



text \<open>
  C3. For every list of proposals that satisfy the data model's invariant
  (\<open>consistent\<close>), \<open>generateToolFiles\<close> returns a list of files, one per proposal and in
  the proposals' order: the i-th file has the path \<open>tools/<name>.ts\<close> of the i-th
  proposal and the content \<open>generateToolFile\<close> gives for it. The result is a function of
  the proposal list alone, so equal inputs give the same files, character by character.
\<close>

theorem generateToolFiles_one_file_per_proposal:
  "list_all consistent ps \<Longrightarrow>
     (\<exists>files. generateToolFiles ps = Inr files \<and> length files = length ps
        \<and> map path files = map (\<lambda>p. ''tools/'' @ ToolProposal.name p @ ''.ts'') ps
        \<and> map (\<lambda>f. Inr (content f)) files = map generateToolFile ps)
     \<and> (\<forall>ps'. ps' = ps \<longrightarrow> generateToolFiles ps' = generateToolFiles ps)"
  using generateToolFiles_shape [of ps] by simp

theorem generateToolFiles_one_file_per_proposal_witness:
  "list_all consistent [example_getMenu, example_addToCart]
   \<and> (\<exists>files. generateToolFiles [example_getMenu, example_addToCart] = Inr files
         \<and> length files = 2
         \<and> map path files = [''tools/getMenu.ts'', ''tools/addToCart.ts''])"
  using generateToolFiles_one_file_per_proposal [of "[example_getMenu, example_addToCart]"]
  by (auto simp: consistent_def example_getMenu_def example_addToCart_def)

text \<open>
  C7. When the declared return type of a js-call is \<open>"void"\<close>, the execute body is the
  guarded call whose call statement is \<open>fn(<arguments>);\<close>, with no variable bound to
  its value, followed by the return of the fixed text "Action completed successfully".
  For every other return type (also when none is declared) the call statement is
  \<open>const result = fn(<arguments>);\<close> and the body returns \<open>jsonContent(result)\<close>.
\<close>

theorem jscall_body_void_or_result:
  "(returnType a = Some ''void'' \<longrightarrow>
     generateJSCallBody a =
       join nl
         [''    try {'',
          ''      // Call the page's JS function directly'',
          ''      const fn = '' @ functionPath a @ '';'',
          ''      if (typeof fn !== \"function\") {'',
          ''        return textContent(\"Error: '' @ functionPath a
             @ '' is not available on this page\");'',
          ''      }'',
          ''      fn('' @ join '', '' (map (\<lambda>x. ''input.'' @ x) (argMapping a)) @ '');'',
          ''      return textContent(\"Action completed successfully\");'',
          ''    } catch (error) {'',
          ''      return textContent(`Error calling '' @ functionPath a @ '': ${error}`);'',
          ''    }''])
   \<and> (returnType a \<noteq> Some ''void'' \<longrightarrow>
     generateJSCallBody a =
       join nl
         [''    try {'',
          ''      // Call the page's JS function directly'',
          ''      const fn = '' @ functionPath a @ '';'',
          ''      if (typeof fn !== \"function\") {'',
          ''        return textContent(\"Error: '' @ functionPath a
             @ '' is not available on this page\");'',
          ''      }'',
          ''      const result = fn('' @ join '', '' (map (\<lambda>x. ''input.'' @ x) (argMapping a))
             @ '');'',
          ''      return jsonContent(result);'',
          ''    } catch (error) {'',
          ''      return textContent(`Error calling '' @ functionPath a @ '': ${error}`);'',
          ''    }''])"
  using jscall_void [of a] jscall_other [of a] by blast

theorem jscall_body_void_or_result_witness:
  "returnType example_clearCart = Some ''void''
   \<and> generateJSCallBody example_clearCart =
       join nl
         [''    try {'',
          ''      // Call the page's JS function directly'',
          ''      const fn = window.cart.clear;'',
          ''      if (typeof fn !== \"function\") {'',
          ''        return textContent(\"Error: window.cart.clear is not available on this page\");'',
          ''      }'',
          ''      fn();'',
          ''      return textContent(\"Action completed successfully\");'',
          ''    } catch (error) {'',
          ''      return textContent(`Error calling window.cart.clear: ${error}`);'',
          ''    }'']
   \<and> returnType example_addItem \<noteq> Some ''void''
   \<and> generateJSCallBody example_addItem =
       join nl
         [''    try {'',
          ''      // Call the page's JS function directly'',
          ''      const fn = window.addItem;'',
          ''      if (typeof fn !== \"function\") {'',
          ''        return textContent(\"Error: window.addItem is not available on this page\");'',
          ''      }'',
          ''      const result = fn(input.id, input.qty);'',
          ''      return jsonContent(result);'',
          ''    } catch (error) {'',
          ''      return textContent(`Error calling window.addItem: ${error}`);'',
          ''    }'']"
  using jscall_body_void_or_result [of example_clearCart]
    jscall_body_void_or_result [of example_addItem]
  by (simp add: example_clearCart_def example_addItem_def)

text \<open>
  C6. When the last step of a dom-action is a \<open>read\<close>, the statement before the
  \<open>catch\<close> of the execute body is \<open>return textContent(result_k ?? "No content found");\<close>
  where \<open>k\<close> is the index of that last step, and the text emitted for the last step
  (one of the body's lines) binds \<open>result_k\<close>. The text of a read step at index \<open>i\<close> is
  the query \<open>const el_i = document.querySelector(...)\<close> followed by
  \<open>const result_i = el_i?.<attribute>\<close> (for \<open>textContent\<close>, also when no attribute is
  named, \<open>innerHTML\<close> and \<open>outerHTML\<close>), \<open>(el_i as HTMLInputElement)?.value\<close>, or
  \<open>el_i?.getAttribute(...)\<close>: optional access in every case, and no not-found guard. So
  the body returns the value read when the element (and the value) is there and the
  fixed text otherwise.
\<close>

theorem dom_body_final_read:
  "steps d \<noteq> [] \<Longrightarrow> DOMActionStep.action (last (steps d)) = ''read'' \<Longrightarrow>
   generateDOMActionBody d =
     join nl
       ([''    try {'']
        @ concat (map step_lines (enumerate 0 (steps d)))
        @ [''      return textContent(result_'' @ show_nat (length (steps d) - 1)
             @ '' ?? \"No content found\");'',
           ''    } catch (error) {'',
           ''      return textContent(`Error: ${error}`);'',
           ''    }''])
   \<and> generateDOMStep (last (steps d)) (length (steps d) - 1)
        \<in> set (concat (map step_lines (enumerate 0 (steps d))))
   \<and> (\<forall>s i. DOMActionStep.action s = ''read'' \<longrightarrow>
        generateDOMStep s i =
          join nl
            [''      const el_'' @ show_nat i @ '' = document.querySelector(''
               @ JSON_stringify (DOMActionStep.selector s) @ '');'',
             ''      const result_'' @ show_nat i @ '' = ''
               @ (let attr = (case readAttribute s of None \<Rightarrow> ''textContent'' | Some a \<Rightarrow> a)
                  in if attr = ''textContent'' \<or> attr = ''innerHTML'' \<or> attr = ''outerHTML''
                     then ''el_'' @ show_nat i @ ''?.'' @ attr @ '';''
                     else if attr = ''value''
                     then ''(el_'' @ show_nat i @ '' as HTMLInputElement)?.value;''
                     else ''el_'' @ show_nat i @ ''?.getAttribute(''
                            @ JSON_stringify attr @ '');'')])"
  using dom_body_read [of d] last_step_in_lines [of "steps d"] read_step_text
  by blast

theorem dom_body_final_read_witness:
  "steps example_readTotal \<noteq> []
   \<and> DOMActionStep.action (last (steps example_readTotal)) = ''read''
   \<and> generateDOMActionBody example_readTotal =
       join nl
         [''    try {'',
          ''      // Step 1: click'',
          join nl
            [''      const el_0 = document.querySelector(\"#cart\");'',
             ''      if (!el_0) throw new Error(\"Element not found: #cart\");'',
             ''      (el_0 as HTMLElement).click();''],
          ''      // Step 2: read'',
          join nl
            [''      const el_1 = document.querySelector(\"#total\");'',
             ''      const result_1 = el_1?.textContent;''],
          ''      return textContent(result_1 ?? \"No content found\");'',
          ''    } catch (error) {'',
          ''      return textContent(`Error: ${error}`);'',
          ''    }'']"
  using dom_body_final_read [of example_readTotal]
  by (simp add: example_readTotal_def step_lines_def generateDOMStep_def show_nat.simps
        JSON_stringify_def json_escape_def enumerate_eq_zip upt_rec)

text \<open>
  The not-found guard of a step that is not a \<open>read\<close>. When no character of the locator
  needs escaping in a string literal, the guard is the statement
  \<open>if (!el_i) throw new Error(<literal>);\<close> whose literal denotes
  \<open>Element not found: <locator>\<close>; the throw is inside the \<open>try\<close> of the body, whose
  \<open>catch\<close> returns the text \<open>Error: ...\<close>.
\<close>

lemma concat_json_escape_plain:
  "list_all (\<lambda>c. json_escape c = [c]) s \<Longrightarrow> concat (map json_escape s) = s"
  by (induction s) simp_all

lemma guard_literal_plain_selector:
  assumes plain: "list_all (\<lambda>c. json_escape c = [c]) (DOMActionStep.selector step)"
    and nr: "DOMActionStep.action step \<noteq> ''read''"
  shows "\<exists>rest. generateDOMStep step i =
           join nl
             ([''      const el_'' @ show_nat i @ '' = document.querySelector(''
                 @ JSON_stringify (DOMActionStep.selector step) @ '');'',
               ''      if (!el_'' @ show_nat i @ '') throw new Error(''
                 @ JSON_stringify (''Element not found: '' @ DOMActionStep.selector step)
                 @ '');'']
              @ rest)"
proof -
  show ?thesis
    unfolding generateDOMStep_def Let_def if_not_P [OF nr]
    apply (rule exI)
    apply (rule arg_cong [where f = "join nl"])
    apply (rule arg_cong2 [where f = "(@)"])
     apply (simp add: JSON_stringify_def json_escape_def concat_json_escape_plain [OF plain])
    apply (rule refl)
    done
qed

text \<open>
  C8 (the code at the failing input). For a click on \<open>button[aria-label="Submit"]\<close> the
  query line carries the locator through \<open>JSON.stringify\<close>, the not-found guard carries
  it as it is: the string literal of the guard ends at the quote before \<open>Submit\<close>, and
  the emitted line is not a statement of the language.
\<close>

theorem dom_guard_selector_unescaped:
  "generateDOMStep example_clickSubmit 0 =
     join nl
       [''      const el_0 = document.querySelector('' @
          [CHR 0x22] @ ''button[aria-label='' @ [CHR 0x5C, CHR 0x22] @ ''Submit''
            @ [CHR 0x5C, CHR 0x22] @ '']'' @ [CHR 0x22] @ '');'',
        ''      if (!el_0) throw new Error('' @
          [CHR 0x22] @ ''Element not found: button[aria-label='' @ [CHR 0x22] @ ''Submit''
            @ [CHR 0x22] @ '']'' @ [CHR 0x22] @ '');'',
        ''      (el_0 as HTMLElement).click();'']"
  by (simp add: example_clickSubmit_def generateDOMStep_def show_nat.simps
        JSON_stringify_def json_escape_def)


section \<open>Reply parser: what is returned and what is raised\<close>

lemmas parse_eval =
  parseToolProposals_def payload_def fenceMatch_def trim_def is_space_def
  JSON_parse_examples_def parse_failure_def

lemma parse_array:
  "JSON_parse (payload r) = Inr (JArray xs) \<Longrightarrow> parseToolProposals JSON_parse r = Inr xs"
  by (simp add: parseToolProposals_def)

lemma parse_wrapper:
  "JSON_parse (payload r) = Inr (JObject entries) \<Longrightarrow>
   map_of entries ''tools'' = Some (JArray xs) \<Longrightarrow>
   parseToolProposals JSON_parse r = Inr xs"
  by (simp add: parseToolProposals_def)

lemma parse_decode_fault:
  "JSON_parse (payload r) = Inl m \<Longrightarrow>
   parseToolProposals JSON_parse r = Inl (Error (''Failed to parse tool proposals: '' @ m))"
  by (simp add: parseToolProposals_def parse_failure_def)

lemma parse_shape_fault:
  "JSON_parse (payload r) = Inr v \<Longrightarrow> v \<noteq> JNull \<Longrightarrow>
   (\<forall>xs. v \<noteq> JArray xs) \<Longrightarrow>
   (\<forall>entries xs. v = JObject entries \<longrightarrow> map_of entries ''tools'' \<noteq> Some (JArray xs)) \<Longrightarrow>
   parseToolProposals JSON_parse r
     = Inl (Error ''Failed to parse tool proposals: Expected an array of tool proposals'')"
  by (cases v)
     (auto simp: parseToolProposals_def parse_failure_def split: option.splits json.splits)

text \<open>
  C10. No element of a decoded array is looked at: whenever the payload of a reply
  decodes to an array, that array is the result, unchanged and of the same length,
  whatever its elements are.
\<close>

theorem parse_array_unvalidated:
  "JSON_parse (payload r) = Inr (JArray xs) \<Longrightarrow>
   parseToolProposals JSON_parse r = Inr xs
   \<and> map_sum id length (parseToolProposals JSON_parse r) = Inr (length xs)"
  by (simp add: parse_array)

text \<open>A fenced list of two numbers is accepted as a list of two proposals.\<close>

theorem parse_array_unvalidated_witness:
  "JSON_parse_examples
       (payload (''Sure, here: ```json'' @ [CHR 0x0A] @ ''[1, 2]'' @ [CHR 0x0A] @ ''```''))
     = Inr (JArray [JNumber \<lparr>num_text = ''1'', num_truthy = True\<rparr>,
                    JNumber \<lparr>num_text = ''2'', num_truthy = True\<rparr>])
   \<and> parseToolProposals JSON_parse_examples
         (''Sure, here: ```json'' @ [CHR 0x0A] @ ''[1, 2]'' @ [CHR 0x0A] @ ''```'')
       = Inr [JNumber \<lparr>num_text = ''1'', num_truthy = True\<rparr>,
              JNumber \<lparr>num_text = ''2'', num_truthy = True\<rparr>]"
  using parse_array_unvalidated [of JSON_parse_examples
      "''Sure, here: ```json'' @ [CHR 0x0A] @ ''[1, 2]'' @ [CHR 0x0A] @ ''```''"
      "[JNumber \<lparr>num_text = ''1'', num_truthy = True\<rparr>,
        JNumber \<lparr>num_text = ''2'', num_truthy = True\<rparr>]"]
  by (simp add: payload_def fenceMatch_def trim_def is_space_def JSON_parse_examples_def)

text \<open>
  C4 (the code at the failing input). A fenced list and the \<open>tools\<close> wrapper are
  returned; \<open>not json\<close> raises the decode fault, \<open>{"name":"x"}\<close> the shape fault. The
  reply \<open>null\<close> decodes, is neither a list nor the wrapper, and raises a fault that
  carries the message of the TypeError of \<open>parsed.tools\<close>, not the shape fault.
\<close>

theorem parse_null_not_shape_fault:
  "parseToolProposals JSON_parse_examples
       (''Sure, here: ```json'' @ [CHR 0x0A] @ ''[1, 2]'' @ [CHR 0x0A] @ ''```'')
     = Inr [JNumber \<lparr>num_text = ''1'', num_truthy = True\<rparr>,
            JNumber \<lparr>num_text = ''2'', num_truthy = True\<rparr>]
   \<and> parseToolProposals JSON_parse_examples ''{\"tools\": [true]}'' = Inr [JBool True]
   \<and> parseToolProposals JSON_parse_examples ''not json''
     = Inl (Error (''Failed to parse tool proposals: ''
                   @ ''Unexpected token 'o', \"not json\" is not valid JSON''))
   \<and> parseToolProposals JSON_parse_examples ''{\"name\":\"x\"}''
     = Inl (Error ''Failed to parse tool proposals: Expected an array of tool proposals'')
   \<and> JSON_parse_examples (payload ''null'') = Inr JNull
   \<and> parseToolProposals JSON_parse_examples ''null''
     = Inl (Error (''Failed to parse tool proposals: ''
                   @ ''Cannot read properties of null (reading 'tools')''))
   \<and> parseToolProposals JSON_parse_examples ''null''
     \<noteq> Inl (Error ''Failed to parse tool proposals: Expected an array of tool proposals'')"
  by (simp add: parse_eval)


section \<open>DOM extractor: the two passes and their merge\<close>

subsection \<open>What the merge adds\<close>

text \<open>
  The merge adds one element for each distinct locator of the markup pass that no region holds
  yet. A locator of the tree pass starts with a tag name followed by an attribute test on
  \<^verbatim>\<open>aria-label\<close> and ends with a text test, or is a tag name followed by a test on
  \<^verbatim>\<open>role\<close>; a locator of the markup pass has neither form. So no element of the markup pass
  is ever dropped for an element of the tree pass, and the total is the sum of the two counts.
\<close>

lemma all_elements_simps:
  "all_elements [] = []"
  "all_elements (r # rs) = interactiveElements r @ all_elements rs"
  "all_elements (xs @ ys) = all_elements xs @ all_elements ys"
  by (simp_all add: all_elements_def)

lemma foldl_count:
  "foldl (\<lambda>sum region. sum + length (interactiveElements region)) n regs
     = n + length (all_elements regs)"
  by (induction regs arbitrary: n) (simp_all add: all_elements_simps)

lemma push_unknown_elements:
  "length (all_elements (push_unknown el regs)) = Suc (length (all_elements regs))"
  "set (all_elements (push_unknown el regs)) = insert el (set (all_elements regs))"
  by (induction regs) (auto simp: all_elements_simps)

lemma map_entry_elements:
  assumes "k \<in> fst ` set m"
  shows "length (all_elements (map snd
           (AList.map_entry k (\<lambda>r. r\<lparr>interactiveElements := interactiveElements r @ [x]\<rparr>) m)))
         = Suc (length (all_elements (map snd m)))"
    and "set (all_elements (map snd
           (AList.map_entry k (\<lambda>r. r\<lparr>interactiveElements := interactiveElements r @ [x]\<rparr>) m)))
         = insert x (set (all_elements (map snd m)))"
  using assms by (induction m) (auto simp: all_elements_simps)

lemma group_step_elements:
  "length (all_elements (map snd (group_step m el))) = Suc (length (all_elements (map snd m)))"
  "set (all_elements (map snd (group_step m el)))
     = insert (a11yToInteractiveElement el) (set (all_elements (map snd m)))"
proof -
  define k where "k = (case parentRole el of None \<Rightarrow> ''unknown'' | Some r \<Rightarrow> r)"
  define r0 where "r0 = \<lparr>Region.type = mapRoleToRegionType k,
                       selector = buildRegionSelector k (parentName el),
                       label = parentName el, interactiveElements = []\<rparr>"
  define m1 where "m1 = (if map_of m k = None then m @ [(k, r0)] else m)"
  have g: "group_step m el =
             AList.map_entry k
               (\<lambda>region. region\<lparr>interactiveElements :=
                   interactiveElements region @ [a11yToInteractiveElement el]\<rparr>) m1"
    by (simp add: group_step_def Let_def k_def r0_def m1_def)
  have key: "k \<in> fst ` set m1"
  proof (cases "map_of m k")
    case None
    then show ?thesis by (simp add: m1_def)
  next
    case (Some r)
    then have "k \<in> fst ` set m" by (metis map_of_eq_None_iff option.distinct(1))
    with Some show ?thesis by (simp add: m1_def)
  qed
  have same: "all_elements (map snd m1) = all_elements (map snd m)"
    by (simp add: m1_def r0_def all_elements_simps)
  show "length (all_elements (map snd (group_step m el)))
          = Suc (length (all_elements (map snd m)))"
    using map_entry_elements(1) [OF key] same by (simp only: g)
  show "set (all_elements (map snd (group_step m el)))
          = insert (a11yToInteractiveElement el) (set (all_elements (map snd m)))"
    using map_entry_elements(2) [OF key] same by (simp only: g)
qed

lemma foldl_group_step:
  "length (all_elements (map snd (foldl group_step m els)))
     = length (all_elements (map snd m)) + length els
   \<and> set (all_elements (map snd (foldl group_step m els)))
     = set (all_elements (map snd m)) \<union> a11yToInteractiveElement ` set els"
proof (induction els arbitrary: m)
  case Nil
  then show ?case by simp
next
  case (Cons a els)
  from Cons.IH [of "group_step m a"] show ?case
    by (simp only: foldl_Cons group_step_elements) auto
qed

lemma groupByRegion_elements:
  "length (all_elements (groupByRegion els)) = length els"
  "set (all_elements (groupByRegion els)) = a11yToInteractiveElement ` set els"
  using foldl_group_step [of "[]" els] by (simp_all add: groupByRegion_def all_elements_simps)

lemma set_add_set: "set (set_add x xs) = insert x (set xs)"
  by (auto simp: set_add_def)

lemma foldl_set_add: "set (foldl (\<lambda>acc s. set_add s acc) acc xs) = set acc \<union> set xs"
  by (induction xs arbitrary: acc) (auto simp: set_add_set)

lemma merge_count:
  "length (all_elements (fst (foldl merge_step (regs, seen) hs)))
     = length (all_elements regs)
       + card (InteractiveElement.selector ` set hs - set seen)"
proof (induction hs arbitrary: regs seen)
  case Nil
  then show ?case by simp
next
  case (Cons h hs)
  let ?s = "InteractiveElement.selector h"
  show ?case
  proof (cases "?s \<in> set seen")
    case True
    then have "InteractiveElement.selector ` set (h # hs) - set seen
                 = InteractiveElement.selector ` set hs - set seen"
      by auto
    with True Cons.IH [of regs seen] show ?thesis
      by (simp add: merge_step_def)
  next
    case False
    have fin: "finite (InteractiveElement.selector ` set hs - insert ?s (set seen))" by simp
    have "InteractiveElement.selector ` set (h # hs) - set seen
            = insert ?s (InteractiveElement.selector ` set hs - insert ?s (set seen))"
      using False by auto
    then have "card (InteractiveElement.selector ` set (h # hs) - set seen)
            = Suc (card (InteractiveElement.selector ` set hs - insert ?s (set seen)))"
      using fin by simp
    with False Cons.IH [of "push_unknown h regs" "set_add ?s seen"] show ?thesis
      by (simp add: merge_step_def push_unknown_elements set_add_set)
  qed
qed

lemma mergeHTMLElements_count:
  "length (all_elements (mergeHTMLElements regs hs))
     = length (all_elements regs)
       + card (InteractiveElement.selector ` set hs
               - InteractiveElement.selector ` set (all_elements regs))"
proof -
  have "set (foldl (\<lambda>acc s. set_add s acc) []
               (map InteractiveElement.selector (concat (map interactiveElements regs))))
          = InteractiveElement.selector ` set (all_elements regs)"
    by (simp only: foldl_set_add all_elements_def set_map) simp
  then show ?thesis
    by (simp only: mergeHTMLElements_def merge_count)
qed


lemma lookup_or_range: "lookup_or tbl fb k \<in> insert fb (snd ` set tbl)"
proof (cases "map_of tbl k")
  case None
  then show ?thesis by (simp add: lookup_or_def)
next
  case (Some v)
  then have "(k, v) \<in> set tbl" by (rule map_of_SomeD)
  then have "v \<in> snd ` set tbl" by force
  with Some show ?thesis by (simp add: lookup_or_def)
qed

lemma roleToHTMLTag_range:
  "roleToHTMLTag r \<in> {''button'', ''a'', ''input'', ''select'', ''div''}"
  by (simp add: roleToHTMLTag_def lookup_or_def)

lemma roleToHTMLTag_word: "list_all is_word (roleToHTMLTag r)"
  using roleToHTMLTag_range [of r]
  by (auto simp: is_word_def lower_letters_def)

lemma dropWhile_word_prefix:
  "list_all is_word tg \<Longrightarrow> \<not> is_word c \<Longrightarrow> dropWhile is_word (tg @ c # rest) = c # rest"
  by (induction tg) simp_all

lemma tree_locator_shape:
  "prefix ''[role='' (dropWhile is_word (buildElementSelector el))
   \<or> (prefix ''[aria-label='' (dropWhile is_word (buildElementSelector el))
      \<and> last (buildElementSelector el) = CHR '')'')"
proof -
  have w: "list_all is_word (roleToHTMLTag (FlatA11yElement.role el))"
    by (rule roleToHTMLTag_word)
  have nb: "\<not> is_word CHR ''[''" by (simp add: is_word_def lower_letters_def upper_letters_def)
  show ?thesis
  proof (cases "truthy (FlatA11yElement.name el)")
    case True
    have "dropWhile is_word (buildElementSelector el)
            = CHR ''['' # ''aria-label=\"'' @ or_empty (FlatA11yElement.name el) @ ''\"], ''
                @ roleToHTMLTag (FlatA11yElement.role el) @ '':has-text(\"''
                @ or_empty (FlatA11yElement.name el) @ ''\")''"
      using True dropWhile_word_prefix [OF w nb] by (simp add: buildElementSelector_def)
    moreover have "last (buildElementSelector el) = CHR '')''"
      using True by (simp add: buildElementSelector_def)
    ultimately show ?thesis by simp
  next
    case False
    have "dropWhile is_word (buildElementSelector el)
            = CHR ''['' # ''role=\"'' @ FlatA11yElement.role el @ ''\"]''"
      using False dropWhile_word_prefix [OF w nb] by (simp add: buildElementSelector_def)
    then show ?thesis by simp
  qed
qed

lemma markup_locator_shape:
  assumes p: "parseHTMLAttributes tg attrs tx = Some h" and w: "list_all is_word tg"
  shows "\<not> prefix ''[role='' (dropWhile is_word (InteractiveElement.selector h))
         \<and> \<not> (prefix ''[aria-label='' (dropWhile is_word (InteractiveElement.selector h))
              \<and> last (InteractiveElement.selector h) = CHR '')'')"
proof -
  have nb: "\<not> is_word CHR ''[''" "\<not> is_word CHR '':''" "\<not> is_word CHR ''#''"
    by (simp_all add: is_word_def lower_letters_def upper_letters_def)
  define s where "s = InteractiveElement.selector h"
  from p have "(\<exists>v. s = CHR ''#'' # v)
      \<or> (\<exists>v. s = tg @ CHR ''['' # ''name=\"'' @ v @ ''\"]'')
      \<or> (\<exists>v. s = tg @ CHR ''['' # ''aria-label=\"'' @ v @ ''\"]'')
      \<or> (\<exists>v. s = tg @ CHR ''['' # ''placeholder=\"'' @ v @ ''\"]'')
      \<or> (\<exists>v. s = tg @ CHR '':'' # ''has-text(\"'' @ v @ ''\")'')"
    unfolding s_def parseHTMLAttributes_def Let_def
    by (auto split: if_splits option.splits)
  then consider
      (ident) v where "s = CHR ''#'' # v"
    | (nm) v where "s = tg @ CHR ''['' # ''name=\"'' @ v @ ''\"]''"
    | (aria) v where "s = tg @ CHR ''['' # ''aria-label=\"'' @ v @ ''\"]''"
    | (ph) v where "s = tg @ CHR ''['' # ''placeholder=\"'' @ v @ ''\"]''"
    | (bytext) v where "s = tg @ CHR '':'' # ''has-text(\"'' @ v @ ''\")''"
    by blast
  then have "\<not> prefix ''[role='' (dropWhile is_word s)
         \<and> \<not> (prefix ''[aria-label='' (dropWhile is_word s) \<and> last s = CHR '')'')"
  proof cases
    case ident
    then show ?thesis using nb by simp
  next
    case nm
    then show ?thesis using dropWhile_word_prefix [OF w nb(1)] by simp
  next
    case aria
    then show ?thesis using dropWhile_word_prefix [OF w nb(1)] by simp
  next
    case ph
    then show ?thesis using dropWhile_word_prefix [OF w nb(1)] by simp
  next
    case bytext
    then show ?thesis using dropWhile_word_prefix [OF w nb(2)] by simp
  qed
  then show ?thesis by (simp add: s_def)
qed

lemma scan_dynamic_tags:
  "(tg, attrs, inner) \<in> set (scan_dynamic s) \<Longrightarrow> list_all is_word tg"
proof (induction s rule: scan_dynamic.induct)
  case 1
  then show ?case by simp
next
  case (2 c cs)
  have tw: "list_all is_word (takeWhile is_word cs)"
    by (simp add: list_all_iff) (meson set_takeWhileD)
  from "2.prems" "2.IH" tw show ?case
    by (auto split: if_splits option.splits)
qed

lemma extractFromHTML_tags:
  assumes "h \<in> set (extractFromHTML html)"
  shows "\<exists>tg attrs tx. parseHTMLAttributes tg attrs tx = Some h \<and> list_all is_word tg"
proof -
  have fixed: "list_all is_word ''button''" "list_all is_word ''input''"
      "list_all is_word ''select''" "list_all is_word ''textarea''" "list_all is_word ''a''"
      "list_all is_word ''div''"
    by (simp_all add: is_word_def lower_letters_def)
  from assms obtain ptag ms m where
    pm: "(ptag, ms) \<in> set (pattern_matches html)" and m: "m \<in> set ms"
    and e: "element_of_match ptag m = Some h"
    by (auto simp: extractFromHTML_def List.map_filter_def split: option.splits)
  show ?thesis
  proof (cases "ptag = ''dynamic''")
    case False
    with pm have "list_all is_word ptag"
      using fixed by (auto simp: pattern_matches_def)
    with e False show ?thesis by (auto simp: element_of_match_def)
  next
    case True
    with pm m obtain tg attrs inner where
      d: "(tg, attrs, inner) \<in> set (scan_dynamic html)" and "m = (Some tg, Some attrs)"
      by (auto simp: pattern_matches_def)
    from d have "list_all is_word tg" by (rule scan_dynamic_tags)
    with e True \<open>m = (Some tg, Some attrs)\<close> show ?thesis
      by (auto simp: element_of_match_def)
  qed
qed

lemma passes_never_agree:
  assumes t: "e \<in> set (all_elements (groupByRegion els))"
    and h: "h \<in> set (extractFromHTML html)"
  shows "InteractiveElement.selector e \<noteq> InteractiveElement.selector h"
proof -
  from t obtain el where "e = a11yToInteractiveElement el"
    by (auto simp: groupByRegion_elements)
  then have se: "InteractiveElement.selector e = buildElementSelector el"
    by (simp add: a11yToInteractiveElement_def)
  from extractFromHTML_tags [OF h] obtain tg attrs tx where
    "parseHTMLAttributes tg attrs tx = Some h" "list_all is_word tg" by blast
  from markup_locator_shape [OF this] tree_locator_shape [of el] se
  show ?thesis by metis
qed

lemma extractDOM_total:
  "totalInteractiveElements (extractDOM snapshot)
     = (case accessibilityTree snapshot of
          None \<Rightarrow> 0
        | Some tree \<Rightarrow> length (flattenAccessibilityTree tree None None 0))
       + card (InteractiveElement.selector ` set (extractFromHTML (bodyHTML snapshot)))"
proof -
  define regs0 where "regs0 = (case accessibilityTree snapshot of
                     None \<Rightarrow> []
                   | Some tree \<Rightarrow> groupByRegion (flattenAccessibilityTree tree None None 0))"
  define hs where "hs = extractFromHTML (bodyHTML snapshot)"
  have len0: "length (all_elements regs0)
      = (case accessibilityTree snapshot of
          None \<Rightarrow> 0
        | Some tree \<Rightarrow> length (flattenAccessibilityTree tree None None 0))"
    by (simp add: regs0_def groupByRegion_elements all_elements_simps split: option.splits)
  have disj: "InteractiveElement.selector ` set hs
               - InteractiveElement.selector ` set (all_elements regs0)
             = InteractiveElement.selector ` set hs"
  proof (cases "accessibilityTree snapshot")
    case None
    then show ?thesis by (simp add: regs0_def all_elements_simps)
  next
    case (Some tree)
    then have r: "regs0 = groupByRegion (flattenAccessibilityTree tree None None 0)"
      by (simp add: regs0_def)
    have "\<And>e h. e \<in> set (all_elements regs0) \<Longrightarrow> h \<in> set hs \<Longrightarrow>
            InteractiveElement.selector e \<noteq> InteractiveElement.selector h"
      unfolding r hs_def by (rule passes_never_agree)
    then show ?thesis by (auto simp: image_iff) metis
  qed
  have "totalInteractiveElements (extractDOM snapshot)
          = length (all_elements (mergeHTMLElements regs0 hs))"
    by (simp add: extractDOM_def Let_def regs0_def hs_def foldl_count)
  also have "\<dots> = length (all_elements regs0) + card (InteractiveElement.selector ` set hs)"
    by (simp only: mergeHTMLElements_count disj)
  finally show ?thesis by (simp only: len0 hs_def)
qed

subsection \<open>The code at two inputs\<close>

text \<open>
  C1 (the code at the failing input). On the snapshot of the test "merges HTML elements
  without duplicating" the merged model has three entries: the Submit button of the
  tree pass in the region \<open>main\<close>, and the Submit button of the markup pass next to
  the Cancel button in the region \<open>unknown\<close>. The two passes give the one button two
  different locators, so the comparison of locators keeps both.
\<close>

theorem extractDOM_keeps_both_submit_buttons:
  "map (\<lambda>r. (Region.type r,
              map (\<lambda>e. (InteractiveElement.selector e, elem_text e)) (interactiveElements r)))
       (regions (extractDOM submit_snapshot))
     = [(''main'',
         [(''button[aria-label=\"Submit\"], button:has-text(\"Submit\")'', Some ''Submit'')]),
        (''unknown'',
         [(''button[aria-label=\"Submit\"]'', Some ''Submit''),
          (''#cancel-btn'', Some ''Cancel'')])]
   \<and> totalInteractiveElements (extractDOM submit_snapshot) = 3
   \<and> length (filter (\<lambda>e. elem_text e = Some ''Submit'')
         (concat (map interactiveElements (regions (extractDOM submit_snapshot))))) = 2"
  by code_simp

text \<open>
  The locator \<open>parseHTMLAttributes\<close> gives for a tag name, an attribute text and a visible
  text: the first of id, name, \<^verbatim>\<open>aria-label\<close>, placeholder and the first fifty characters
  of the visible text that is there and not empty; no element when none is.
\<close>

lemma parseHTMLAttributes_locator:
  "map_option InteractiveElement.selector (parseHTMLAttributes tg attrsStr textContent) =
     (if truthy (getAttr ''id'' attrsStr)
        then Some (''#'' @ or_empty (getAttr ''id'' attrsStr))
      else if truthy (getAttr ''name'' attrsStr)
        then Some (tg @ ''[name=\"'' @ or_empty (getAttr ''name'' attrsStr) @ ''\"]'')
      else if truthy (getAttr ''aria-label'' attrsStr)
        then Some (tg @ ''[aria-label=\"'' @ or_empty (getAttr ''aria-label'' attrsStr) @ ''\"]'')
      else if truthy (getAttr ''placeholder'' attrsStr)
        then Some (tg @ ''[placeholder=\"'' @ or_empty (getAttr ''placeholder'' attrsStr) @ ''\"]'')
      else if truthy textContent
        then Some (tg @ '':has-text(\"'' @ take 50 (or_empty textContent) @ ''\")'')
      else None)"
  by (simp add: parseHTMLAttributes_def Let_def)

lemma parseHTMLAttributes_omits:
  "parseHTMLAttributes tg attrsStr textContent = None \<longleftrightarrow>
     \<not> truthy (getAttr ''id'' attrsStr) \<and> \<not> truthy (getAttr ''name'' attrsStr)
     \<and> \<not> truthy (getAttr ''aria-label'' attrsStr) \<and> \<not> truthy (getAttr ''placeholder'' attrsStr)
     \<and> \<not> truthy textContent"
  by (simp add: parseHTMLAttributes_def Let_def)

text \<open>
  C5 (the code at the failing input). For an element found by the inline-handler
  pattern, group 1 of the match is the tag name and group 2 the attribute text; the
  loop passes group 1 as the attributes and group 2 as the visible text. A \<open>div\<close> with
  the id \<open>promo\<close> gets a locator made of its attribute text instead of \<open>#promo\<close>, and
  a \<open>div\<close> with no id, name, label, placeholder or text is not dropped but listed
  with such a locator.
\<close>

theorem inline_handler_locator_from_attribute_text:
  "map (\<lambda>e. (tag e, InteractiveElement.selector e, elem_id e, elem_text e))
       (extractFromHTML ''<div id=\"promo\" onclick=\"go()\">Go</div>'')
     = [(''div'', ''div:has-text(\"id=\"promo\" onclick=\"go()\"\")'', None,
         Some ''id=\"promo\" onclick=\"go()\"'')]
   \<and> map (\<lambda>e. (tag e, InteractiveElement.selector e, elem_id e, elem_text e))
       (extractFromHTML ''<div onclick=\"go()\"></div>'')
     = [(''div'', ''div:has-text(\"onclick=\"go()\"\")'', None, Some ''onclick=\"go()\"'')]"
  by code_simp

end
